theory Spec2Isabelle
  imports Complex_Main "HOL-Library.Word"
begin

section \<open>Strings, file names and the file system\<close>

text \<open>
  A C++ \<open>char\<close> is a \<^typ>\<open>char\<close>, a \<open>std::string\<close> a \<^typ>\<open>string\<close>.
  \<open>s.find(pat) != std::string::npos\<close> is \<open>str_find s pat\<close>: some suffix of \<open>s\<close>
  starts with \<open>pat\<close>.
\<close>

fun starts_with :: "string \<Rightarrow> string \<Rightarrow> bool" where
  "starts_with s [] = True"
| "starts_with [] (p # ps) = False"
| "starts_with (c # cs) (p # ps) = (c = p \<and> starts_with cs ps)"

fun str_find :: "string \<Rightarrow> string \<Rightarrow> bool" where
  "str_find [] pat = (pat = [])"
| "str_find (c # cs) pat = (starts_with (c # cs) pat \<or> str_find cs pat)"

definition newline :: char where
  "newline = CHR 0x0A"

text \<open>
  The file system, as far as this class looks at it: the regular files by name, with
  their contents. \<open>itksys::SystemTools::FileExists(name, true)\<close> asks for a regular file.
\<close>

type_synonym filesystem = "string \<Rightarrow> string option"

definition FileExists :: "filesystem \<Rightarrow> string \<Rightarrow> bool" where
  "FileExists fs fileName = (fs fileName \<noteq> None)"

text \<open>
  \<open>itksys::SystemTools::GetFilenameLastExtension\<close> (library code, POSIX separators): the
  file name is what follows the last slash, its last extension runs from the last dot
  of the file name to the end, dot included, and is empty when the name has no dot.
\<close>

definition GetFilenameName :: "string \<Rightarrow> string" where
  "GetFilenameName filename = rev (takeWhile (\<lambda>c. c \<noteq> CHR ''/'') (rev filename))"

definition GetFilenameLastExtension :: "string \<Rightarrow> string" where
  "GetFilenameLastExtension filename =
     (let name = GetFilenameName filename in
      if CHR ''.'' \<in> set name
      then CHR ''.'' # rev (takeWhile (\<lambda>c. c \<noteq> CHR ''.'') (rev name))
      else [])"

definition CanReadFile :: "filesystem \<Rightarrow> string \<Rightarrow> bool" where
  "CanReadFile fs fileName =
     (if \<not> FileExists fs fileName then False
      else let extension = GetFilenameLastExtension fileName in
        if extension \<noteq> ''.stl'' \<and> extension \<noteq> ''.STL'' then False
        else True)"

definition CanWriteFile :: "string \<Rightarrow> bool" where
  "CanWriteFile fileName =
     (let extension = GetFilenameLastExtension fileName in
      if extension \<noteq> ''.stl'' \<and> extension \<noteq> ''.STL'' then False
      else True)"

section \<open>The data model\<close>

text \<open>
  The enumerations come from the base class \<open>MeshIOBase\<close> of the ITK library: the
  file type, the component type of the caller's point buffer (\<open>INT_COMPONENT\<close> is the
  source's \<open>INT\<close>), and the geometry tags of the cell buffer, of which the writer
  tests two.
\<close>

datatype FileType = ASCII | BINARY | TYPENOTAPPLICABLE

datatype IOComponentType =
  UNKNOWNCOMPONENTTYPE | UCHAR | CHAR | USHORT | SHORT | UINT | INT_COMPONENT
  | ULONG | LONG | ULONGLONG | LONGLONG | FLOAT | DOUBLE | LDOUBLE

definition TRIANGLE_CELL :: nat where
  "TRIANGLE_CELL = 2"

definition POLYGON_CELL :: nat where
  "POLYGON_CELL = 4"

text \<open>
  \<open>PointType\<close>, \<open>VectorType\<close> and \<open>NormalType\<close> are three components of
  \<open>PointValueType\<close>, which is \<open>float\<close>. The component type is the parameter \<open>'f\<close>:
  the arithmetic of \<open>float\<close> is whatever \<open>-\<close>, \<open>*\<close> and \<open><\<close> are on \<open>'f\<close>, and the
  model fixes neither its rounding nor its bytes.
\<close>

datatype 'f vec3 = Vec3 (vx: 'f) (vy: 'f) (vz: 'f)

text \<open>\<open>p - q\<close> on points, and \<open>CrossProduct(c, a, b)\<close> of the ITK library.\<close>

definition point_minus :: "'f::minus vec3 \<Rightarrow> 'f vec3 \<Rightarrow> 'f vec3" where
  "point_minus p q = Vec3 (vx p - vx q) (vy p - vy q) (vz p - vz q)"

definition CrossProduct :: "'f::{minus,times} vec3 \<Rightarrow> 'f vec3 \<Rightarrow> 'f vec3" where
  "CrossProduct a b =
     Vec3 (vy a * vz b - vz a * vy b)
          (vz a * vx b - vx a * vz b)
          (vx a * vy b - vy a * vx b)"

text \<open>
  Every \<open>itkExceptionMacro\<close> of the source is a constructor that carries what the
  message streams in: the file name; the expected keyword, \<open>m_InputLineNumber\<close> and
  \<open>m_InputLine\<close>; the line number alone for a vertex. The last two are no exceptions:
  they mark the places where the C++ has undefined behaviour (it uses a local that was
  never written, or indexes past the end of a buffer), and the model stops there.
\<close>

datatype error =
  UnableToOpenFile string
  | ParsingErrorMissed string "32 word" string
  | ParsingErrorMissedVertex "32 word"
  | OnlySupports3DPoints
  | UnknownPointComponentType
  | UninitializedRead
  | OutOfBoundsRead

section \<open>Streams\<close>

text \<open>
  An input file stream: whether a file is associated, the file's bytes, the read
  position, and the state bits that the code can reach.
\<close>

record ifstream =
  is_open :: bool
  buf :: string
  gpos :: nat
  eofbit :: bool
  failbit :: bool

definition closed_ifstream :: ifstream where
  "closed_ifstream = \<lparr>is_open = False, buf = [], gpos = 0, eofbit = False, failbit = False\<rparr>"

definition good :: "ifstream \<Rightarrow> bool" where
  "good s = (\<not> eofbit s \<and> \<not> failbit s)"

definition avail :: "ifstream \<Rightarrow> string" where
  "avail s = (if is_open s then drop (gpos s) (buf s) else [])"

definition ifstream_open :: "filesystem \<Rightarrow> string \<Rightarrow> ifstream \<Rightarrow> ifstream" where
  "ifstream_open fs name s =
     (if is_open s then s\<lparr>failbit := True\<rparr>
      else case fs name of
        None \<Rightarrow> s\<lparr>failbit := True\<rparr>
      | Some d \<Rightarrow> \<lparr>is_open = True, buf = d, gpos = 0, eofbit = False, failbit = False\<rparr>)"

definition ifstream_close :: "ifstream \<Rightarrow> ifstream" where
  "ifstream_close s = (if is_open s then s\<lparr>is_open := False\<rparr> else s\<lparr>failbit := True\<rparr>)"

text \<open>
  \<open>std::getline(stream, str, delim)\<close>: on a stream that is not good the string is left
  as it was; otherwise the string is replaced by the characters before the delimiter,
  which is consumed and dropped; at the end of the file \<open>eofbit\<close> is set, with
  \<open>failbit\<close> when nothing at all was extracted.
\<close>

definition getline :: "ifstream \<Rightarrow> string \<Rightarrow> char \<Rightarrow> string \<times> ifstream" where
  "getline s str delim =
     (if \<not> good s then (str, s\<lparr>failbit := True\<rparr>)
      else let rest = avail s; line = takeWhile (\<lambda>c. c \<noteq> delim) rest in
        if length line < length rest
        then (line, s\<lparr>gpos := gpos s + length line + 1\<rparr>)
        else (line, s\<lparr>gpos := gpos s + length line, eofbit := True, failbit := (line = [])\<rparr>))"

text \<open>
  \<open>stream.read(p, n)\<close>: the characters stored and the stream after. A short read stores
  what is left and sets \<open>eofbit\<close> and \<open>failbit\<close>.
\<close>

definition istream_read :: "ifstream \<Rightarrow> nat \<Rightarrow> string \<times> ifstream" where
  "istream_read s n =
     (if \<not> good s then ([], s\<lparr>failbit := True\<rparr>)
      else let rest = avail s in
        if n \<le> length rest then (take n rest, s\<lparr>gpos := gpos s + n\<rparr>)
        else (rest, s\<lparr>gpos := gpos s + length rest, eofbit := True, failbit := True\<rparr>))"

definition isspace :: "char \<Rightarrow> bool" where
  "isspace c = (c \<in> {CHR '' '', CHR 0x09, CHR 0x0A, CHR 0x0B, CHR 0x0C, CHR 0x0D})"

text \<open>
  \<open>stream >> word\<close> into an empty string: leading white space is skipped, line ends
  included, and the word runs to the next white space.
\<close>

definition extract_word :: "ifstream \<Rightarrow> string \<times> ifstream" where
  "extract_word s =
     (if \<not> good s then ([], s\<lparr>failbit := True\<rparr>)
      else let rest = avail s; ws = takeWhile isspace rest; rest1 = dropWhile isspace rest in
        if rest1 = []
        then ([], s\<lparr>gpos := gpos s + length rest, eofbit := True, failbit := True\<rparr>)
        else let w = takeWhile (\<lambda>c. \<not> isspace c) rest1 in
          (w, s\<lparr>gpos := gpos s + length ws + length w, eofbit := (length w = length rest1)\<rparr>))"

text \<open>
  \<open>stream >> value\<close> for a \<open>float\<close>. The syntax of a number is the standard library's:
  \<open>scan\<close> is given the input after the white space and answers the value and how many
  characters it took, or \<open>None\<close>. A variable is \<open>None\<close> while nothing was stored in
  it. When the stream is not good, or ends in the white space, the variable keeps its
  content; when the field does not convert, zero is stored (C++11).
\<close>

type_synonym 'f scanner = "string \<Rightarrow> ('f \<times> nat) option"

definition extract_float :: "'f::zero scanner \<Rightarrow> 'f option \<Rightarrow> ifstream \<Rightarrow> 'f option \<times> ifstream" where
  "extract_float scan old s =
     (if \<not> good s then (old, s\<lparr>failbit := True\<rparr>)
      else let rest = avail s; ws = takeWhile isspace rest; rest1 = dropWhile isspace rest in
        if rest1 = []
        then (old, s\<lparr>gpos := gpos s + length rest, eofbit := True, failbit := True\<rparr>)
        else case scan rest1 of
          None \<Rightarrow> (Some 0, s\<lparr>gpos := gpos s + length ws, failbit := True\<rparr>)
        | Some (v, n) \<Rightarrow>
            (Some v, s\<lparr>gpos := gpos s + length ws + min n (length rest1),
                        eofbit := (length rest1 \<le> n)\<rparr>))"

text \<open>\<open>stream >> point\<close> of the ITK library: the three components in turn.\<close>

definition extract_point ::
  "'f::zero scanner \<Rightarrow> 'f option vec3 \<Rightarrow> ifstream \<Rightarrow> 'f option vec3 \<times> ifstream" where
  "extract_point scan point s =
     (let (x, s1) = extract_float scan (vx point) s;
          (y, s2) = extract_float scan (vy point) s1;
          (z, s3) = extract_float scan (vz point) s2
      in (Vec3 x y z, s3))"

text \<open>
  An output file stream holds what was written, field by field: text, or the object
  representation of an \<open>int32_t\<close>, an \<open>int16_t\<close> or a \<open>float\<close>, each written with
  \<open>write(&value, sizeof(value))\<close>. \<open>nbytes\<close> is the size of a field in the file.
\<close>

datatype 'f chunk = Chars string | Int32 "32 word" | Int16 "16 word" | Float32 'f

fun nbytes :: "'f chunk \<Rightarrow> nat" where
  "nbytes (Chars cs) = length cs"
| "nbytes (Int32 w) = 4"
| "nbytes (Int16 w) = 2"
| "nbytes (Float32 x) = 4"

definition file_size :: "'f chunk list \<Rightarrow> nat" where
  "file_size cs = sum_list (map nbytes cs)"

record 'f ofstream =
  o_is_open :: bool
  o_failbit :: bool
  written :: "'f chunk list"

definition closed_ofstream :: "'f ofstream" where
  "closed_ofstream = \<lparr>o_is_open = False, o_failbit = False, written = []\<rparr>"

text \<open>Opening for output creates or truncates the file, where the file can be created.\<close>

definition ofstream_open :: "(string \<Rightarrow> bool) \<Rightarrow> string \<Rightarrow> 'f ofstream \<Rightarrow> 'f ofstream" where
  "ofstream_open creatable name os =
     (if o_is_open os then os\<lparr>o_failbit := True\<rparr>
      else if creatable name then \<lparr>o_is_open = True, o_failbit = False, written = []\<rparr>
      else os\<lparr>o_failbit := True\<rparr>)"

definition ofstream_close :: "'f ofstream \<Rightarrow> 'f ofstream" where
  "ofstream_close os = (if o_is_open os then os\<lparr>o_is_open := False\<rparr> else os\<lparr>o_failbit := True\<rparr>)"

definition put :: "'f chunk list \<Rightarrow> 'f ofstream \<Rightarrow> 'f ofstream" where
  "put cs os =
     (if o_is_open os \<and> \<not> o_failbit os then os\<lparr>written := written os @ cs\<rparr>
      else os\<lparr>o_failbit := True\<rparr>)"

text \<open>\<open>stream << std::setfill(' ') << std::setw(n) << text\<close>: padded on the left.\<close>

definition setw_fill :: "nat \<Rightarrow> string \<Rightarrow> string" where
  "setw_fill n s = replicate (n - length s) (CHR '' '') @ s"

section \<open>The reader and writer object\<close>

text \<open>
  The members of \<open>STLMeshIO\<close> and the members of its base class that the code reads or
  writes. \<open>IdentifierType\<close> is an unsigned 64-bit integer, held as a natural number;
  \<open>m_InputLineNumber\<close> is an \<open>unsigned int\<close>. The source inserts into \<open>m_PointsSet\<close>,
  which the header does not declare: it is the ordered set of points under
  \<open>PointCompare\<close> that its use asks for, kept as the list of its elements in order.
  \<open>m_PointsMap\<close> and \<open>m_LatestPointId\<close> are the header's.
\<close>

record 'f STLMeshIO =
  m_FileName :: string
  m_FileType :: FileType
  m_PointDimension :: nat
  m_PointComponentType :: IOComponentType
  m_NumberOfPoints :: nat
  m_NumberOfCells :: nat
  m_OutputStream :: "'f ofstream"
  m_InputStream :: ifstream
  m_InputLine :: string
  m_Points :: "'f vec3 list"
  m_InputLineNumber :: "32 word"
  m_PointsSet :: "'f vec3 list"
  m_PointsMap :: "('f vec3 \<times> nat) list"
  m_LatestPointId :: nat

text \<open>
  A call returns the object after it, or throws: \<open>Inl\<close> carries the exception and the
  object as the throw leaves it.
\<close>

type_synonym ('f, 'a) result = "(error \<times> 'f STLMeshIO) + 'a"

section \<open>Point insertion\<close>

definition PointCompare :: "'f::linorder vec3 \<Rightarrow> 'f vec3 \<Rightarrow> bool" where
  "PointCompare p1 p2 =
     (if vx p1 \<noteq> vx p2 then vx p1 < vx p2
      else if vy p1 \<noteq> vy p2 then vy p1 < vy p2
      else vz p1 < vz p2)"

text \<open>
  Modelled from the spec: the declaration of \<open>m_PointsSet\<close> is missing from the header.
  The spec's storage for deduplication is ordered lexicographically over \<open>(x, y, z)\<close> and
  holds one entry for each distinct point, which is what \<open>m_PointsSet.insert(point)\<close> asks
  for: \<open>std::set::insert\<close> under \<open>PointCompare\<close>. The point goes to its place in the order,
  unless an element is equivalent to it (neither is before the other). The order is
  taken to be linear, as it is on numbers that are not NaN.
\<close>

fun set_insert :: "'f::linorder vec3 \<Rightarrow> 'f vec3 list \<Rightarrow> 'f vec3 list" where
  "set_insert p [] = [p]"
| "set_insert p (q # qs) =
     (if PointCompare p q then p # q # qs
      else if PointCompare q p then q # set_insert p qs
      else q # qs)"

text \<open>
  \<open>InsertPointIntoSet\<close> copies the three components into locals, fills the local
  \<open>pointHash\<close>, which nothing reads, and inserts the point into \<open>m_PointsSet\<close>. It
  returns nothing.
\<close>

definition InsertPointIntoSet :: "'f::linorder option vec3 \<Rightarrow> 'f STLMeshIO \<Rightarrow> ('f, 'f STLMeshIO) result" where
  "InsertPointIntoSet point s =
     (case (vx point, vy point, vz point) of
        (Some valueX, Some valueY, Some valueZ) \<Rightarrow>
          Inr (s\<lparr>m_PointsSet := set_insert (Vec3 valueX valueY valueZ) (m_PointsSet s)\<rparr>)
      | _ \<Rightarrow> Inl (UninitializedRead, s))"

section \<open>Reading\<close>

definition ReadStringFromAscii :: "string \<Rightarrow> 'f STLMeshIO \<Rightarrow> ('f, 'f STLMeshIO) result" where
  "ReadStringFromAscii expected s =
     (let s1 = (if m_InputLine s = []
                then let (line, is1) = getline (m_InputStream s) (m_InputLine s) newline
                     in s\<lparr>m_InputStream := is1, m_InputLine := line\<rparr>
                else s)
      in if \<not> str_find (m_InputLine s1) expected
         then Inl (ParsingErrorMissed expected (m_InputLineNumber s1) (m_InputLine s1), s1)
         else Inr (s1\<lparr>m_InputLine := [], m_InputLineNumber := m_InputLineNumber s1 + 1\<rparr>))"

definition CheckStringFromAscii :: "string \<Rightarrow> 'f STLMeshIO \<Rightarrow> bool \<times> 'f STLMeshIO" where
  "CheckStringFromAscii expected s =
     (let (line, is1) = getline (m_InputStream s) (m_InputLine s) newline;
          s1 = s\<lparr>m_InputStream := is1, m_InputLine := line\<rparr>
      in if str_find (m_InputLine s1) expected
         then (True, s1\<lparr>m_InputLineNumber := m_InputLineNumber s1 + 1\<rparr>)
         else (False, s1))"

text \<open>
  \<open>ReadPointAsAscii(point)\<close>: the point is a reference to a local of the caller, so the
  model takes its content and returns the new one.
\<close>

definition ReadPointAsAscii ::
  "'f::{linorder,zero} scanner \<Rightarrow> 'f option vec3 \<Rightarrow> 'f STLMeshIO
     \<Rightarrow> ('f, 'f option vec3 \<times> 'f STLMeshIO) result" where
  "ReadPointAsAscii scan point s =
     (let (keywword, is1) = extract_word (m_InputStream s);
          s1 = s\<lparr>m_InputStream := is1\<rparr>
      in if \<not> str_find keywword ''vertex''
         then Inl (ParsingErrorMissedVertex (m_InputLineNumber s1), s1)
         else let (point1, is2) = extract_point scan point (m_InputStream s1);
                  s2 = s1\<lparr>m_InputStream := is2\<rparr>
              in case InsertPointIntoSet point1 s2 of
                   Inl e \<Rightarrow> Inl e
                 | Inr s3 \<Rightarrow>
                     let (restOfLine, is3) = getline (m_InputStream s3) [] newline
                     in Inr (point1, s3\<lparr>m_InputStream := is3,
                                          m_InputLineNumber := m_InputLineNumber s3 + 1\<rparr>))"

text \<open>The body of the loop of \<open>ReadMeshInternalFromAscii\<close>: one facet.\<close>

definition ReadFacet ::
  "'f::{linorder,zero} scanner \<Rightarrow> 'f option vec3 \<times> 'f option vec3 \<times> 'f option vec3 \<Rightarrow> 'f STLMeshIO
     \<Rightarrow> ('f, ('f option vec3 \<times> 'f option vec3 \<times> 'f option vec3) \<times> 'f STLMeshIO) result" where
  "ReadFacet scan ps s =
     (case ps of (p0, p1, p2) \<Rightarrow>
      case ReadStringFromAscii ''facet normal'' s of Inl e \<Rightarrow> Inl e | Inr s1 \<Rightarrow>
      case ReadStringFromAscii ''outer loop'' s1 of Inl e \<Rightarrow> Inl e | Inr s2 \<Rightarrow>
      case ReadPointAsAscii scan p0 s2 of Inl e \<Rightarrow> Inl e | Inr (q0, s3) \<Rightarrow>
      case ReadPointAsAscii scan p1 s3 of Inl e \<Rightarrow> Inl e | Inr (q1, s4) \<Rightarrow>
      case ReadPointAsAscii scan p2 s4 of Inl e \<Rightarrow> Inl e | Inr (q2, s5) \<Rightarrow>
      case ReadStringFromAscii ''endloop'' s5 of Inl e \<Rightarrow> Inl e | Inr s6 \<Rightarrow>
      case ReadStringFromAscii ''endfacet'' s6 of Inl e \<Rightarrow> Inl e | Inr s7 \<Rightarrow>
      Inr ((q0, q1, q2), s7))"

text \<open>
  The loop of \<open>ReadMeshInternalFromAscii\<close> runs until a line holds \<open>endsolid\<close>. It
  ends on every input: a facet that is read takes at least its \<open>outer loop\<close> line
  from the stream, so what is left of the file gets shorter each time round.
\<close>

definition remaining :: "'f STLMeshIO \<Rightarrow> nat" where
  "remaining s = length (avail (m_InputStream s))"

lemma avail_getline:
  "length (avail (snd (getline s str d))) \<le> length (avail s)"
  by (auto simp: getline_def avail_def Let_def)

lemma getline_line:
  "getline s str d = (line, s') \<Longrightarrow> line \<noteq> str \<Longrightarrow> length (avail s') + length line \<le> length (avail s)"
  using length_takeWhile_le [of "\<lambda>c. c \<noteq> d" "drop (gpos s) (buf s)"]
  by (auto simp: getline_def avail_def Let_def split: if_splits)

lemma avail_extract_word:
  "length (avail (snd (extract_word s))) \<le> length (avail s)"
  by (auto simp: extract_word_def avail_def Let_def)

lemma avail_extract_float:
  "length (avail (snd (extract_float scan old s))) \<le> length (avail s)"
  by (auto simp: extract_float_def avail_def Let_def split: option.splits)

lemma avail_extract_point:
  "length (avail (snd (extract_point scan p s))) \<le> length (avail s)"
proof -
  obtain x s1 where a: "extract_float scan (vx p) s = (x, s1)" by force
  obtain y s2 where b: "extract_float scan (vy p) s1 = (y, s2)" by force
  obtain z s3 where c: "extract_float scan (vz p) s2 = (z, s3)" by force
  have "length (avail s1) \<le> length (avail s)" using avail_extract_float [of scan "vx p" s] a by simp
  moreover have "length (avail s2) \<le> length (avail s1)" using avail_extract_float [of scan "vy p" s1] b by simp
  moreover have "length (avail s3) \<le> length (avail s2)" using avail_extract_float [of scan "vz p" s2] c by simp
  ultimately show ?thesis by (simp add: extract_point_def a b c)
qed

lemma remaining_ReadStringFromAscii:
  assumes "ReadStringFromAscii expected s = Inr s'"
  shows "remaining s' \<le> remaining s \<and> m_InputLine s' = []
     \<and> (m_InputLine s = [] \<longrightarrow> expected \<noteq> [] \<longrightarrow> remaining s' < remaining s)"
proof (cases "m_InputLine s = []")
  case False
  with assms show ?thesis
    by (auto simp: ReadStringFromAscii_def remaining_def split: if_splits)
next
  case True
  obtain line is1 where g: "getline (m_InputStream s) [] newline = (line, is1)" by force
  from assms True g have f: "str_find line expected"
    and s': "s' = s\<lparr>m_InputStream := is1, m_InputLine := [], m_InputLineNumber := m_InputLineNumber s + 1\<rparr>"
    by (auto simp: ReadStringFromAscii_def Let_def split: if_splits)
  have le: "length (avail is1) \<le> length (avail (m_InputStream s))"
    using avail_getline [of "m_InputStream s" "[]" newline] g by simp
  have "expected \<noteq> [] \<Longrightarrow> length (avail is1) < length (avail (m_InputStream s))"
  proof -
    assume "expected \<noteq> []"
    with f have "line \<noteq> []" by auto
    with getline_line [OF g] show ?thesis by (cases line) auto
  qed
  with le s' True show ?thesis by (auto simp: remaining_def)
qed

lemma remaining_ReadPointAsAscii:
  assumes "ReadPointAsAscii scan p s = Inr (q, s')"
  shows "remaining s' \<le> remaining s \<and> m_InputLine s' = m_InputLine s"
proof -
  obtain w is1 where a: "extract_word (m_InputStream s) = (w, is1)" by force
  obtain p1 is2 where b: "extract_point scan p is1 = (p1, is2)" by force
  obtain l is3 where c: "getline is2 [] newline = (l, is3)" by force
  have 1: "length (avail is1) \<le> length (avail (m_InputStream s))"
    using avail_extract_word [of "m_InputStream s"] a by simp
  have 2: "length (avail is2) \<le> length (avail is1)"
    using avail_extract_point [of scan p is1] b by simp
  have 3: "length (avail is3) \<le> length (avail is2)"
    using avail_getline [of is2 "[]" newline] c by simp
  from assms a b c have "m_InputStream s' = is3 \<and> m_InputLine s' = m_InputLine s"
    by (auto simp: ReadPointAsAscii_def InsertPointIntoSet_def Let_def
             split: if_splits option.splits sum.splits prod.splits)
  with 1 2 3 show ?thesis by (simp add: remaining_def)
qed

lemma remaining_ReadFacet:
  assumes "ReadFacet scan ps s = Inr (qs, s')"
  shows "remaining s' < remaining s"
proof -
  obtain p0 p1 p2 where ps: "ps = (p0, p1, p2)" by (cases ps) auto
  from assms ps obtain s1 s2 q0 s3 q1 s4 q2 s5 s6 where
    a: "ReadStringFromAscii ''facet normal'' s = Inr s1" and
    b: "ReadStringFromAscii ''outer loop'' s1 = Inr s2" and
    c: "ReadPointAsAscii scan p0 s2 = Inr (q0, s3)" and
    d: "ReadPointAsAscii scan p1 s3 = Inr (q1, s4)" and
    e: "ReadPointAsAscii scan p2 s4 = Inr (q2, s5)" and
    f: "ReadStringFromAscii ''endloop'' s5 = Inr s6" and
    g: "ReadStringFromAscii ''endfacet'' s6 = Inr s'"
    by (auto simp: ReadFacet_def split: sum.splits prod.splits)
  from remaining_ReadStringFromAscii [OF a] have 1: "remaining s1 \<le> remaining s" "m_InputLine s1 = []" by auto
  from remaining_ReadStringFromAscii [OF b] 1 have 2: "remaining s2 < remaining s1" by auto
  from remaining_ReadPointAsAscii [OF c] have 3: "remaining s3 \<le> remaining s2" by simp
  from remaining_ReadPointAsAscii [OF d] have 4: "remaining s4 \<le> remaining s3" by simp
  from remaining_ReadPointAsAscii [OF e] have 5: "remaining s5 \<le> remaining s4" by simp
  from remaining_ReadStringFromAscii [OF f] have 6: "remaining s6 \<le> remaining s5" by simp
  from remaining_ReadStringFromAscii [OF g] have 7: "remaining s' \<le> remaining s6" by simp
  from 1 2 3 4 5 6 7 show ?thesis by linarith
qed

lemma remaining_CheckStringFromAscii:
  "CheckStringFromAscii expected s = (b, s') \<Longrightarrow> remaining s' \<le> remaining s"
  using avail_getline [of "m_InputStream s" "m_InputLine s" newline]
  by (auto simp: CheckStringFromAscii_def remaining_def Let_def split: prod.splits if_splits)

text \<open>
  \<open>while (!CheckStringFromAscii("endsolid")) { ... }\<close>, with the locals \<open>p0\<close>, \<open>p1\<close>
  and \<open>p2\<close> carried from one facet to the next.
\<close>

function ReadFacets ::
  "'f::{linorder,zero} scanner \<Rightarrow> 'f option vec3 \<times> 'f option vec3 \<times> 'f option vec3 \<Rightarrow> 'f STLMeshIO
     \<Rightarrow> ('f, 'f STLMeshIO) result" where
  "ReadFacets scan ps s =
     (case CheckStringFromAscii ''endsolid'' s of (found, s1) \<Rightarrow>
        if found then Inr s1
        else case ReadFacet scan ps s1 of
               Inl e \<Rightarrow> Inl e
             | Inr (ps1, s2) \<Rightarrow> ReadFacets scan ps1 s2)"
  by pat_completeness auto
termination
proof (relation "measure (\<lambda>(scan, ps, s). remaining s)")
  show "wf (measure (\<lambda>(scan, ps, s). remaining s))" by simp
next
  fix scan :: "'f::{linorder,zero} scanner" and ps s found s1 r ps1 s2
  assume "(found, s1) = CheckStringFromAscii ''endsolid'' s" and "\<not> found"
    and "ReadFacet scan ps s1 = Inr r" and "(ps1, s2) = r"
  then show "((scan, ps1, s2), scan, ps, s) \<in> measure (\<lambda>(scan, ps, s). remaining s)"
    using remaining_CheckStringFromAscii [of "''endsolid''" s found s1] remaining_ReadFacet [of scan ps s1 ps1 s2]
    by auto
qed

declare ReadFacets.simps [simp del]

definition ReadMeshInternalFromAscii ::
  "'f::{linorder,zero} scanner \<Rightarrow> 'f STLMeshIO \<Rightarrow> ('f, 'f STLMeshIO) result" where
  "ReadMeshInternalFromAscii scan s =
     ReadFacets scan (Vec3 None None None, Vec3 None None None, Vec3 None None None)
       (s\<lparr>m_InputLineNumber := 2\<rparr>)"

text \<open>
  The binary helpers read \<open>sizeof(float)\<close> or \<open>sizeof(int16_t)\<close> bytes into a local and
  copy it into a variable of the caller that nothing reads afterwards: what is left of
  them is the stream.
\<close>

definition skip_read :: "nat \<Rightarrow> 'f STLMeshIO \<Rightarrow> 'f STLMeshIO" where
  "skip_read n s = s\<lparr>m_InputStream := snd (istream_read (m_InputStream s) n)\<rparr>"

definition ReadNormalAsBinary :: "'f STLMeshIO \<Rightarrow> 'f STLMeshIO" where
  "ReadNormalAsBinary s = skip_read 4 (skip_read 4 (skip_read 4 s))"

definition ReadPointAsBinary :: "'f STLMeshIO \<Rightarrow> 'f STLMeshIO" where
  "ReadPointAsBinary s = skip_read 4 (skip_read 4 (skip_read 4 s))"

definition ReadInt16AsBinary :: "'f STLMeshIO \<Rightarrow> 'f STLMeshIO" where
  "ReadInt16AsBinary s = skip_read 2 s"

text \<open>
  \<open>SetNumberOfCells\<close> of the base class takes an \<open>IdentifierType\<close>: the \<open>int32_t\<close>
  argument is converted with its sign.
\<close>

definition SetNumberOfCells :: "32 word \<Rightarrow> 'f STLMeshIO \<Rightarrow> 'f STLMeshIO" where
  "SetNumberOfCells n s = s\<lparr>m_NumberOfCells := unat (scast n :: 64 word)\<rparr>"

text \<open>
  \<open>while (numberOfTriangles--)\<close> on an \<open>int32_t\<close>: the loop runs until the counter is
  zero. For a negative count the counter is taken to wrap around.
\<close>

function ReadTriangles :: "32 word \<Rightarrow> 'f STLMeshIO \<Rightarrow> 'f STLMeshIO" where
  "ReadTriangles numberOfTriangles s =
     (if numberOfTriangles = 0 then s
      else ReadTriangles (numberOfTriangles - 1)
             (ReadInt16AsBinary (ReadPointAsBinary (ReadPointAsBinary (ReadPointAsBinary
               (ReadNormalAsBinary s))))))"
  by pat_completeness auto
termination
  by (relation "measure (\<lambda>(n, s). unat n)") (auto simp: measure_unat)

declare ReadTriangles.simps [simp del]

text \<open>The four bytes of an \<open>int32_t\<close> in memory, on a little-endian machine.\<close>

definition le32 :: "char \<Rightarrow> char \<Rightarrow> char \<Rightarrow> char \<Rightarrow> 32 word" where
  "le32 b0 b1 b2 b3 = of_char b0 + 256 * of_char b1 + 65536 * of_char b2 + 16777216 * of_char b3"

text \<open>
  \<open>ReadMeshInternalFromBinary\<close> reads from where the stream stands. The count is an
  uninitialised local: after a short read its value is not defined.
\<close>

definition ReadMeshInternalFromBinary :: "'f STLMeshIO \<Rightarrow> ('f, 'f STLMeshIO) result" where
  "ReadMeshInternalFromBinary s =
     (let (header, is1) = istream_read (m_InputStream s) 80;
          (bytes, is2) = istream_read is1 4;
          s1 = s\<lparr>m_InputStream := is2\<rparr>
      in case bytes of
           [b0, b1, b2, b3] \<Rightarrow>
             let numberOfTriangles = le32 b0 b1 b2 b3
             in Inr (ReadTriangles numberOfTriangles (SetNumberOfCells numberOfTriangles s1))
         | _ \<Rightarrow> Inl (UninitializedRead, s1))"

text \<open>
  The stream is opened the same way for both file types where a text stream and a
  binary stream do not differ; the branches under \<open>_WIN32\<close>, which close the stream
  and open it again when the file type changes, are not part of this build.
\<close>

definition open_input :: "filesystem \<Rightarrow> 'f STLMeshIO \<Rightarrow> 'f STLMeshIO" where
  "open_input fs s =
     (if m_FileType s = ASCII
      then s\<lparr>m_InputStream := ifstream_open fs (m_FileName s) (m_InputStream s)\<rparr>
      else if m_FileType s = BINARY
      then s\<lparr>m_InputStream := ifstream_open fs (m_FileName s) (m_InputStream s)\<rparr>
      else s)"

definition ReadMeshInformation ::
  "filesystem \<Rightarrow> 'f::{linorder,zero} scanner \<Rightarrow> 'f STLMeshIO \<Rightarrow> ('f, 'f STLMeshIO) result" where
  "ReadMeshInformation fs scan s =
     (let s1 = open_input fs s in
      if \<not> is_open (m_InputStream s1) then Inl (UnableToOpenFile (m_FileName s1), s1)
      else
        let (inputLine, is1) = getline (m_InputStream s1) [] newline;
            s2 = s1\<lparr>m_InputStream := is1\<rparr>
        in case (if str_find inputLine ''solid''
                 then ReadMeshInternalFromAscii scan
                        (if m_FileType s2 \<noteq> ASCII then s2\<lparr>m_FileType := ASCII\<rparr> else s2)
                 else ReadMeshInternalFromBinary
                        (if m_FileType s2 \<noteq> BINARY then s2\<lparr>m_FileType := BINARY\<rparr> else s2)) of
             Inl e \<Rightarrow> Inl e
           | Inr s3 \<Rightarrow> Inr (s3\<lparr>m_InputStream := ifstream_close (m_InputStream s3)\<rparr>))"

text \<open>
  \<open>ReadPoints(void * buffer)\<close> and \<open>ReadCells(void * buffer)\<close>: the call returns the
  caller's buffer as the call leaves it, and the object or the exception.
\<close>

definition ReadPoints :: "filesystem \<Rightarrow> 'b \<Rightarrow> 'f STLMeshIO \<Rightarrow> 'b \<times> ('f, 'f STLMeshIO) result" where
  "ReadPoints fs buffer s =
     (let s1 = open_input fs s in
      if \<not> is_open (m_InputStream s1) then (buffer, Inl (UnableToOpenFile (m_FileName s1), s1))
      else (buffer, Inr (s1\<lparr>m_InputStream := ifstream_close (m_InputStream s1)\<rparr>)))"

definition ReadCells :: "filesystem \<Rightarrow> 'b \<Rightarrow> 'f STLMeshIO \<Rightarrow> 'b \<times> ('f, 'f STLMeshIO) result" where
  "ReadCells fs buffer s =
     (let s1 = open_input fs s in
      if \<not> is_open (m_InputStream s1) then (buffer, Inl (UnableToOpenFile (m_FileName s1), s1))
      else (buffer, Inr (s1\<lparr>m_InputStream := ifstream_close (m_InputStream s1)\<rparr>)))"

section \<open>Writing\<close>

definition open_output :: "(string \<Rightarrow> bool) \<Rightarrow> 'f STLMeshIO \<Rightarrow> 'f STLMeshIO" where
  "open_output creatable s =
     (if m_FileType s = ASCII
      then s\<lparr>m_OutputStream := ofstream_open creatable (m_FileName s) (m_OutputStream s)\<rparr>
      else if m_FileType s = BINARY
      then s\<lparr>m_OutputStream := ofstream_open creatable (m_FileName s) (m_OutputStream s)\<rparr>
      else s)"

definition WriteMeshInformation :: "(string \<Rightarrow> bool) \<Rightarrow> 'f STLMeshIO \<Rightarrow> ('f, 'f STLMeshIO) result" where
  "WriteMeshInformation creatable s =
     (let s1 = open_output creatable s in
      if \<not> o_is_open (m_OutputStream s1) then Inl (UnableToOpenFile (m_FileName s1), s1)
      else if m_FileType s1 = ASCII
      then Inr (s1\<lparr>m_OutputStream := put [Chars ''solid ascii'', Chars [newline]] (m_OutputStream s1)\<rparr>)
      else if m_FileType s1 = BINARY
      then Inr (s1\<lparr>m_OutputStream :=
                  put [Chars (setw_fill 80 ''binary STL generated from ITK'')] (m_OutputStream s1)\<rparr>)
      else Inr s1)"

definition Write :: "'f STLMeshIO \<Rightarrow> 'f STLMeshIO" where
  "Write s = s\<lparr>m_OutputStream := ofstream_close (m_OutputStream s)\<rparr>"

text \<open>
  \<open>WritePointsTyped\<close>: \<open>convert\<close> is the \<open>static_cast\<close> of a buffer element to
  \<open>float\<close>. The buffer holds \<open>3 * m_NumberOfPoints\<close> elements, or the loop reads past
  its end.
\<close>

definition WritePointsTyped :: "('b \<Rightarrow> 'f) \<Rightarrow> 'b list \<Rightarrow> 'f STLMeshIO \<Rightarrow> ('f, 'f STLMeshIO) result" where
  "WritePointsTyped convert buffer s =
     (let pointDimension = m_PointDimension s in
      if pointDimension \<noteq> 3 then Inl (OnlySupports3DPoints, s)
      else let numberOfPoints = m_NumberOfPoints s in
        if length buffer < 3 * numberOfPoints then Inl (OutOfBoundsRead, s)
        else Inr (s\<lparr>m_Points :=
               map (\<lambda>pi. Vec3 (convert (buffer ! (3 * pi)))
                               (convert (buffer ! (3 * pi + 1)))
                               (convert (buffer ! (3 * pi + 2))))
                   [0..<numberOfPoints]\<rparr>))"

text \<open>
  \<open>WritePoints\<close> picks the element type of the buffer by \<open>m_PointComponentType\<close>; its
  \<open>default\<close> branch is taken for \<open>UNKNOWNCOMPONENTTYPE\<close>.
\<close>

definition WritePoints ::
  "(IOComponentType \<Rightarrow> 'b \<Rightarrow> 'f) \<Rightarrow> 'b list \<Rightarrow> 'f STLMeshIO \<Rightarrow> ('f, 'f STLMeshIO) result" where
  "WritePoints convert buffer s =
     (let pointValueType = m_PointComponentType s in
      case pointValueType of
        UNKNOWNCOMPONENTTYPE \<Rightarrow> Inl (UnknownPointComponentType, s)
      | _ \<Rightarrow> WritePointsTyped (convert pointValueType) buffer s)"

definition WriteInt32AsBinary :: "32 word \<Rightarrow> 'f ofstream \<Rightarrow> 'f ofstream" where
  "WriteInt32AsBinary v os = put [Int32 v] os"

definition WriteInt16AsBinary :: "16 word \<Rightarrow> 'f ofstream \<Rightarrow> 'f ofstream" where
  "WriteInt16AsBinary v os = put [Int16 v] os"

definition WriteNormalAsBinary :: "'f vec3 \<Rightarrow> 'f ofstream \<Rightarrow> 'f ofstream" where
  "WriteNormalAsBinary normal os =
     put [Float32 (vz normal)] (put [Float32 (vy normal)] (put [Float32 (vx normal)] os))"

definition WritePointAsBinary :: "'f vec3 \<Rightarrow> 'f ofstream \<Rightarrow> 'f ofstream" where
  "WritePointAsBinary point os =
     put [Float32 (vz point)] (put [Float32 (vy point)] (put [Float32 (vx point)] os))"

definition isTriangle :: "nat \<Rightarrow> nat \<Rightarrow> bool" where
  "isTriangle cellType numberOfVerticesInCell =
     (cellType = TRIANGLE_CELL \<or> (cellType = POLYGON_CELL \<and> numberOfVerticesInCell = 3))"

text \<open>
  The first loop of \<open>WriteCells\<close>, which counts the triangles: the polygons left, the
  cell buffer, \<open>index2\<close> and \<open>numberOfTriangles\<close>, an \<open>int32_t\<close>.
\<close>

fun count_triangles :: "nat \<Rightarrow> nat list \<Rightarrow> nat \<Rightarrow> 32 word \<Rightarrow> error + 32 word" where
  "count_triangles 0 cellsBuffer index2 numberOfTriangles = Inr numberOfTriangles"
| "count_triangles (Suc k) cellsBuffer index2 numberOfTriangles =
     (if length cellsBuffer < index2 + 2 then Inl OutOfBoundsRead
      else let cellType = cellsBuffer ! index2;
               numberOfVerticesInCell = cellsBuffer ! (index2 + 1)
           in count_triangles k cellsBuffer (index2 + 2 + numberOfVerticesInCell)
                (if isTriangle cellType numberOfVerticesInCell
                 then numberOfTriangles + 1 else numberOfTriangles))"

text \<open>
  What the second loop writes for one triangle; \<open>fmt\<close> is \<open>operator<<\<close> on a \<open>float\<close>
  with the stream's default format, \<open>std::endl\<close> a line end.
\<close>

definition write_facet ::
  "('f \<Rightarrow> string) \<Rightarrow> FileType \<Rightarrow> 'f vec3 \<Rightarrow> 'f vec3 \<Rightarrow> 'f vec3 \<Rightarrow> 'f vec3 \<Rightarrow> 'f ofstream \<Rightarrow> 'f ofstream" where
  "write_facet fmt fileType normal p0 p1 p2 os =
     (if fileType = ASCII
      then put [Chars ''  facet normal '',
                Chars (fmt (vx normal)), Chars '' '', Chars (fmt (vy normal)), Chars '' '',
                Chars (fmt (vz normal)), Chars [newline],
                Chars ''    outer loop'', Chars [newline],
                Chars ''      vertex '', Chars (fmt (vx p0)), Chars '' '', Chars (fmt (vy p0)),
                Chars '' '', Chars (fmt (vz p0)), Chars [newline],
                Chars ''      vertex '', Chars (fmt (vx p1)), Chars '' '', Chars (fmt (vy p1)),
                Chars '' '', Chars (fmt (vz p1)), Chars [newline],
                Chars ''      vertex '', Chars (fmt (vx p2)), Chars '' '', Chars (fmt (vy p2)),
                Chars '' '', Chars (fmt (vz p2)), Chars [newline],
                Chars ''    endloop'', Chars [newline],
                Chars ''  endfacet'', Chars [newline]] os
      else if fileType = BINARY
      then WriteInt16AsBinary 0 (WritePointAsBinary p2 (WritePointAsBinary p1
             (WritePointAsBinary p0 (WriteNormalAsBinary normal os))))
      else os)"

text \<open>
  The second loop of \<open>WriteCells\<close>: the polygons left, \<open>index\<close> and the output stream.
  A triangle takes its three point identifiers from the buffer and its points from
  \<open>m_Points\<close>.
\<close>

fun write_cells ::
  "('f::{minus,times} \<Rightarrow> string) \<Rightarrow> FileType \<Rightarrow> 'f vec3 list \<Rightarrow> nat \<Rightarrow> nat list \<Rightarrow> nat
     \<Rightarrow> 'f ofstream \<Rightarrow> error + 'f ofstream" where
  "write_cells fmt fileType points 0 cellsBuffer index os = Inr os"
| "write_cells fmt fileType points (Suc k) cellsBuffer index os =
     (if length cellsBuffer < index + 2 then Inl OutOfBoundsRead
      else let cellType = cellsBuffer ! index;
               numberOfVerticesInCell = cellsBuffer ! (index + 1)
           in if isTriangle cellType numberOfVerticesInCell
              then if length cellsBuffer < index + 5 then Inl OutOfBoundsRead
                   else if \<not> (cellsBuffer ! (index + 2) < length points
                              \<and> cellsBuffer ! (index + 3) < length points
                              \<and> cellsBuffer ! (index + 4) < length points)
                   then Inl OutOfBoundsRead
                   else let p0 = points ! (cellsBuffer ! (index + 2));
                            p1 = points ! (cellsBuffer ! (index + 3));
                            p2 = points ! (cellsBuffer ! (index + 4));
                            v10 = point_minus p0 p1;
                            v12 = point_minus p2 p1;
                            normal = CrossProduct v12 v10
                        in write_cells fmt fileType points k cellsBuffer (index + 5)
                             (write_facet fmt fileType normal p0 p1 p2 os)
              else write_cells fmt fileType points k cellsBuffer
                     (index + 2 + numberOfVerticesInCell) os)"

definition WriteCells ::
  "('f::{minus,times} \<Rightarrow> string) \<Rightarrow> nat list \<Rightarrow> 'f STLMeshIO \<Rightarrow> ('f, 'f STLMeshIO) result" where
  "WriteCells fmt buffer s =
     (let numberOfPolygons = m_NumberOfCells s in
      case (if m_FileType s = BINARY
            then case count_triangles numberOfPolygons buffer 0 0 of
                   Inl e \<Rightarrow> Inl e
                 | Inr numberOfTriangles \<Rightarrow> Inr (WriteInt32AsBinary numberOfTriangles (m_OutputStream s))
            else Inr (m_OutputStream s)) of
        Inl e \<Rightarrow> Inl (e, s)
      | Inr os1 \<Rightarrow>
          case write_cells fmt (m_FileType s) (m_Points s) numberOfPolygons buffer 0 os1 of
            Inl e \<Rightarrow> Inl (e, s\<lparr>m_OutputStream := os1\<rparr>)
          | Inr os2 \<Rightarrow>
              if m_FileType s = ASCII
              then Inr (s\<lparr>m_OutputStream := put [Chars ''endsolid'', Chars [newline]] os2\<rparr>)
              else Inr (s\<lparr>m_OutputStream := os2\<rparr>))"

section \<open>Specifications and example inputs\<close>

subsection \<open>The cell buffer and what is written for it\<close>

text \<open>
  The cell buffer as the caller fills it: for each cell its geometry tag, the number of
  its points and the point identifiers. A cell qualifies for the file when it is a
  triangle cell, or a polygon cell of three points. A cell is valid for the stored
  points when, if it qualifies, it has three point identifiers and each names a stored
  point.
\<close>

type_synonym cell = "nat \<times> nat list"

definition encode_cell :: "cell \<Rightarrow> nat list" where
  "encode_cell c = fst c # length (snd c) # snd c"

definition encode_cells :: "cell list \<Rightarrow> nat list" where
  "encode_cells cells = concat (map encode_cell cells)"

definition qualifying :: "cell \<Rightarrow> bool" where
  "qualifying c = (fst c = TRIANGLE_CELL \<or> (fst c = POLYGON_CELL \<and> length (snd c) = 3))"

definition valid_cell :: "'f vec3 list \<Rightarrow> cell \<Rightarrow> bool" where
  "valid_cell points c =
     (if qualifying c then length (snd c) = 3 \<and> list_all (\<lambda>i. i < length points) (snd c) else True)"

text \<open>
  The facet of a cell, in the spec's words: the normal is the cross product of the edge
  vectors \<open>p2 - p1\<close> and \<open>p0 - p1\<close>, in that order, followed by the three points.
\<close>

definition facet_of :: "'f::{minus,times} vec3 list \<Rightarrow> cell \<Rightarrow> 'f vec3 \<times> 'f vec3 \<times> 'f vec3 \<times> 'f vec3" where
  "facet_of points c =
     (let p0 = points ! (snd c ! 0); p1 = points ! (snd c ! 1); p2 = points ! (snd c ! 2)
      in (CrossProduct (point_minus p2 p1) (point_minus p0 p1), p0, p1, p2))"

definition emit_facet ::
  "('f::{minus,times} \<Rightarrow> string) \<Rightarrow> FileType \<Rightarrow> 'f vec3 list \<Rightarrow> 'f ofstream \<Rightarrow> cell \<Rightarrow> 'f ofstream" where
  "emit_facet fmt fileType points os c =
     (case facet_of points c of (normal, p0, p1, p2) \<Rightarrow> write_facet fmt fileType normal p0 p1 p2 os)"

text \<open>
  The layout of one triangle in the file: the binary record of thirteen fields, fifty
  bytes, and the seven lines of the text form.
\<close>

definition binary_record :: "'f vec3 \<Rightarrow> 'f vec3 \<Rightarrow> 'f vec3 \<Rightarrow> 'f vec3 \<Rightarrow> 'f chunk list" where
  "binary_record normal p0 p1 p2 =
     [Float32 (vx normal), Float32 (vy normal), Float32 (vz normal),
      Float32 (vx p0), Float32 (vy p0), Float32 (vz p0),
      Float32 (vx p1), Float32 (vy p1), Float32 (vz p1),
      Float32 (vx p2), Float32 (vy p2), Float32 (vz p2),
      Int16 0]"

definition ascii_vertex :: "('f \<Rightarrow> string) \<Rightarrow> 'f vec3 \<Rightarrow> 'f chunk list" where
  "ascii_vertex fmt p =
     [Chars ''      vertex '', Chars (fmt (vx p)), Chars '' '', Chars (fmt (vy p)), Chars '' '',
      Chars (fmt (vz p)), Chars [newline]]"

definition ascii_facet :: "('f \<Rightarrow> string) \<Rightarrow> 'f vec3 \<Rightarrow> 'f vec3 \<Rightarrow> 'f vec3 \<Rightarrow> 'f vec3 \<Rightarrow> 'f chunk list" where
  "ascii_facet fmt normal p0 p1 p2 =
     [Chars ''  facet normal '', Chars (fmt (vx normal)), Chars '' '', Chars (fmt (vy normal)),
      Chars '' '', Chars (fmt (vz normal)), Chars [newline],
      Chars ''    outer loop'', Chars [newline]]
     @ ascii_vertex fmt p0 @ ascii_vertex fmt p1 @ ascii_vertex fmt p2
     @ [Chars ''    endloop'', Chars [newline], Chars ''  endfacet'', Chars [newline]]"

definition facet_chunks ::
  "('f \<Rightarrow> string) \<Rightarrow> FileType \<Rightarrow> 'f vec3 \<times> 'f vec3 \<times> 'f vec3 \<times> 'f vec3 \<Rightarrow> 'f chunk list" where
  "facet_chunks fmt fileType f =
     (case f of (normal, p0, p1, p2) \<Rightarrow>
        if fileType = ASCII then ascii_facet fmt normal p0 p1 p2
        else if fileType = BINARY then binary_record normal p0 p1 p2
        else [])"

definition writable :: "'f ofstream \<Rightarrow> bool" where
  "writable os = (o_is_open os \<and> \<not> o_failbit os)"

subsection \<open>Results of a call, and a small mesh\<close>

text \<open>
  The object after a call, returned or thrown; the exception, if any; one call after
  another; and the fields written to the output file so far.
\<close>

definition state_of :: "('f, 'f STLMeshIO) result \<Rightarrow> 'f STLMeshIO" where
  "state_of r = (case r of Inl (e, s) \<Rightarrow> s | Inr s \<Rightarrow> s)"

definition thrown :: "(error \<times> 'f STLMeshIO) + 'a \<Rightarrow> error option" where
  "thrown r = (case r of Inl (e, s) \<Rightarrow> Some e | Inr s \<Rightarrow> None)"

definition and_then ::
  "('f, 'f STLMeshIO) result \<Rightarrow> ('f STLMeshIO \<Rightarrow> ('f, 'f STLMeshIO) result) \<Rightarrow> ('f, 'f STLMeshIO) result" where
  "and_then r f = (case r of Inl e \<Rightarrow> Inl e | Inr s \<Rightarrow> f s)"

definition output_of :: "('f, 'f STLMeshIO) result \<Rightarrow> 'f chunk list" where
  "output_of r = written (m_OutputStream (state_of r))"

text \<open>
  A small mesh for the examples: the triangle \<open>(0,0,0)\<close>, \<open>(1,0,0)\<close>, \<open>(0,1,0)\<close> over
  the real numbers, a file system where every file can be created, and a number format
  that prints nothing.
\<close>

definition creatable_anywhere :: "string \<Rightarrow> bool" where
  "creatable_anywhere name = True"

definition fmt_blank :: "real \<Rightarrow> string" where
  "fmt_blank x = []"

definition open_ofstream :: "'f ofstream" where
  "open_ofstream = \<lparr>o_is_open = True, o_failbit = False, written = []\<rparr>"

definition unit_triangle_mesh :: "FileType \<Rightarrow> real STLMeshIO" where
  "unit_triangle_mesh fileType =
     \<lparr>m_FileName = ''mesh.stl'', m_FileType = fileType, m_PointDimension = 3,
      m_PointComponentType = FLOAT, m_NumberOfPoints = 3, m_NumberOfCells = 1,
      m_OutputStream = closed_ofstream, m_InputStream = closed_ifstream, m_InputLine = [],
      m_Points = [Vec3 0 0 0, Vec3 1 0 0, Vec3 0 1 0], m_InputLineNumber = 0,
      m_PointsSet = [], m_PointsMap = [], m_LatestPointId = 0\<rparr>"

definition facet_length :: "FileType \<Rightarrow> nat" where
  "facet_length fileType = (if fileType = ASCII then 34 else if fileType = BINARY then 13 else 0)"

text \<open>A quadrilateral, a triangle, a polygon of three points and one of four.\<close>

definition mixed_cells :: "cell list" where
  "mixed_cells = [(3, [0, 1, 2, 0]), (TRIANGLE_CELL, [0, 1, 2]), (POLYGON_CELL, [2, 1, 0]),
                  (POLYGON_CELL, [0, 1, 2, 1])]"

definition open_mesh :: "FileType \<Rightarrow> nat \<Rightarrow> real STLMeshIO" where
  "open_mesh fileType n =
     (unit_triangle_mesh fileType)\<lparr>m_NumberOfCells := n, m_OutputStream := open_ofstream\<rparr>"

text \<open>Two cells tagged as triangle cells, the first with four point identifiers.\<close>

definition long_triangle_cells :: "cell list" where
  "long_triangle_cells = [(TRIANGLE_CELL, [0, 1, 2, 0]), (TRIANGLE_CELL, [2, 1, 0])]"

subsection \<open>Format detection\<close>

text \<open>The first line of a file: what stands before its first line terminator.\<close>

definition first_line :: "string \<Rightarrow> string" where
  "first_line content = takeWhile (\<lambda>c. c \<noteq> newline) content"

text \<open>
  For the examples: a scanner of unsigned decimal integers, a reader as the constructor
  leaves it, a text file and a binary header.
\<close>

definition is_digit :: "char \<Rightarrow> bool" where
  "is_digit c = (48 \<le> (of_char c :: nat) \<and> (of_char c :: nat) \<le> 57)"

definition scan_digits :: "real scanner" where
  "scan_digits s =
     (let ds = takeWhile is_digit s in
      if ds = [] then None
      else Some (of_nat (foldl (\<lambda>n c. 10 * n + (of_char c - 48)) 0 ds), length ds))"

definition new_reader :: "string \<Rightarrow> FileType \<Rightarrow> real STLMeshIO" where
  "new_reader name fileType =
     \<lparr>m_FileName = name, m_FileType = fileType, m_PointDimension = 3,
      m_PointComponentType = UNKNOWNCOMPONENTTYPE, m_NumberOfPoints = 0, m_NumberOfCells = 0,
      m_OutputStream = closed_ofstream, m_InputStream = closed_ifstream, m_InputLine = [],
      m_Points = [], m_InputLineNumber = 0,
      m_PointsSet = [], m_PointsMap = [], m_LatestPointId = 0\<rparr>"

definition solid_cube_file :: string where
  "solid_cube_file = ''solid cube'' @ [newline] @ ''endsolid'' @ [newline]"

definition opaque_header_file :: string where
  "opaque_header_file = replicate 80 (CHR ''x'') @ [CHR 0x00, CHR 0x00, CHR 0x00, CHR 0x00]"

subsection \<open>The binary reader\<close>

text \<open>An open stream in good state at an offset of the file.\<close>

definition at_offset :: "string \<Rightarrow> nat \<Rightarrow> ifstream" where
  "at_offset content n = \<lparr>is_open = True, buf = content, gpos = n, eofbit = False, failbit = False\<rparr>"

text \<open>
  A binary file of one triangle whose header starts with the line \<open>binary\<close>: 134 bytes,
  the count 1 at offset 80.
\<close>

definition one_triangle_file :: string where
  "one_triangle_file =
     ''binary'' @ [newline] @ replicate 73 (CHR '' '')
     @ [CHR 0x01, CHR 0x00, CHR 0x00, CHR 0x00]
     @ replicate 50 (CHR 0x00)"

subsection \<open>Parse errors of the text reader\<close>

text \<open>
  A text file as its lines, each with its line terminator; the offset where line \<open>i\<close>
  starts (lines counted from 0); and the reader in step with the file at line \<open>i\<close>: the
  stream stands at the start of the line, no line is held in \<open>m_InputLine\<close>, and the line
  counter is the 1-based number of the line.
\<close>

definition text_of :: "string list \<Rightarrow> string" where
  "text_of lines = concat (map (\<lambda>l. l @ [newline]) lines)"









text \<open>The file without \<open>endloop\<close> again, with a blank line after its first line.\<close>

definition blank_line_lines :: "string list" where
  "blank_line_lines =
     [''solid t'', [], ''facet normal 0 0 1'', ''outer loop'', ''vertex 0 0 0'', ''vertex 1 0 0'',
      ''vertex 0 1 0'', ''endfacet'', ''endsolid'']"

subsection \<open>The point dimension on writing\<close>

text \<open>A buffer of two-dimensional points, and a conversion that keeps the value.\<close>

definition keep_value :: "IOComponentType \<Rightarrow> real \<Rightarrow> real" where
  "keep_value t x = x"

definition flat_mesh :: "IOComponentType \<Rightarrow> real STLMeshIO" where
  "flat_mesh t = (unit_triangle_mesh BINARY)\<lparr>m_PointDimension := 2, m_PointComponentType := t\<rparr>"

section \<open>The cell buffer and what is written for it\<close>

lemma count_triangles_encoded:
  "count_triangles (length cells) (pre @ encode_cells cells @ post) (length pre) acc =
     Inr (acc + of_nat (length (filter qualifying cells)))"
proof (induction cells arbitrary: pre acc)
  case Nil
  show ?case by (simp add: encode_cells_def)
next
  case (Cons c cs)
  define b where "b = pre @ encode_cells (c # cs) @ post"
  have buf: "b = (pre @ encode_cell c) @ encode_cells cs @ post"
    by (simp add: b_def encode_cells_def)
  have len: "length (pre @ encode_cell c) = length pre + 2 + length (snd c)"
    by (simp add: encode_cell_def)
  have hd0: "b ! length pre = fst c"
    by (simp add: b_def encode_cells_def encode_cell_def nth_append)
  have hd1: "b ! (length pre + 1) = length (snd c)"
    by (simp add: b_def encode_cells_def encode_cell_def nth_append)
  have long: "\<not> length b < length pre + 2"
    by (simp add: b_def encode_cells_def encode_cell_def)
  have q: "isTriangle (fst c) (length (snd c)) = qualifying c"
    by (simp add: isTriangle_def qualifying_def)
  have "count_triangles (Suc (length cs)) b (length pre) acc =
        count_triangles (length cs) b (length pre + 2 + length (snd c))
          (if qualifying c then acc + 1 else acc)"
    using long hd0 hd1 q by (simp add: Let_def)
  also have "\<dots> = count_triangles (length cs) ((pre @ encode_cell c) @ encode_cells cs @ post)
          (length (pre @ encode_cell c)) (if qualifying c then acc + 1 else acc)"
    by (simp only: buf [symmetric] len)
  also have "\<dots> = Inr ((if qualifying c then acc + 1 else acc) + of_nat (length (filter qualifying cs)))"
    by (rule Cons.IH)
  finally show ?case by (simp add: b_def)
qed

lemma write_cells_encoded:
  assumes "list_all (valid_cell points) cells"
  shows "write_cells fmt fileType points (length cells) (pre @ encode_cells cells @ post) (length pre) os =
     Inr (foldl (emit_facet fmt fileType points) os (filter qualifying cells))"
  using assms
proof (induction cells arbitrary: pre os)
  case Nil
  show ?case by (simp add: encode_cells_def)
next
  case (Cons c cs)
  define b where "b = pre @ encode_cells (c # cs) @ post"
  have buf: "b = (pre @ encode_cell c) @ encode_cells cs @ post"
    by (simp add: b_def encode_cells_def)
  have len: "length (pre @ encode_cell c) = length pre + 2 + length (snd c)"
    by (simp add: encode_cell_def)
  have hd0: "b ! length pre = fst c"
    by (simp add: b_def encode_cells_def encode_cell_def nth_append)
  have hd1: "b ! (length pre + 1) = length (snd c)"
    by (simp add: b_def encode_cells_def encode_cell_def nth_append)
  have long: "\<not> length b < length pre + 2"
    by (simp add: b_def encode_cells_def encode_cell_def)
  have q: "isTriangle (fst c) (length (snd c)) = qualifying c"
    by (simp add: isTriangle_def qualifying_def)
  from Cons.prems have cs: "list_all (valid_cell points) cs" and c: "valid_cell points c" by simp_all
  show ?case
  proof (cases "qualifying c")
    case False
    have "write_cells fmt fileType points (Suc (length cs)) b (length pre) os =
          write_cells fmt fileType points (length cs) b (length pre + 2 + length (snd c)) os"
      using long hd0 hd1 q False by (simp add: Let_def)
    also have "\<dots> = write_cells fmt fileType points (length cs)
            ((pre @ encode_cell c) @ encode_cells cs @ post) (length (pre @ encode_cell c)) os"
      by (simp only: buf [symmetric] len)
    also have "\<dots> = Inr (foldl (emit_facet fmt fileType points) os (filter qualifying cs))"
      by (rule Cons.IH [OF cs])
    finally show ?thesis using False by (simp add: b_def)
  next
    case True
    with c have l3: "length (snd c) = 3" and rng: "list_all (\<lambda>i. i < length points) (snd c)"
      by (simp_all add: valid_cell_def)
    from l3 obtain i0 i1 i2 where ids: "snd c = [i0, i1, i2]"
      by (auto simp: length_Suc_conv numeral_3_eq_3)
    have n2: "b ! (length pre + 2) = i0" and n3: "b ! (length pre + 3) = i1"
      and n4: "b ! (length pre + 4) = i2"
      by (simp_all add: b_def encode_cells_def encode_cell_def nth_append ids)
    have long5: "\<not> length b < length pre + 5"
      by (simp add: b_def encode_cells_def encode_cell_def ids)
    from rng ids have r: "i0 < length points" "i1 < length points" "i2 < length points" by simp_all
    have "write_cells fmt fileType points (Suc (length cs)) b (length pre) os =
          write_cells fmt fileType points (length cs) b (length pre + 5)
            (emit_facet fmt fileType points os c)"
      using long long5 hd0 hd1 n2 n3 n4 q True r l3
      by (simp add: Let_def emit_facet_def facet_of_def ids)
    also have "\<dots> = write_cells fmt fileType points (length cs)
            ((pre @ encode_cell c) @ encode_cells cs @ post) (length (pre @ encode_cell c))
            (emit_facet fmt fileType points os c)"
      by (simp only: buf [symmetric] len l3) (simp add: add.commute)
    also have "\<dots> = Inr (foldl (emit_facet fmt fileType points) (emit_facet fmt fileType points os c)
                            (filter qualifying cs))"
      by (rule Cons.IH [OF cs])
    finally show ?thesis using True by (simp add: b_def)
  qed
qed

lemma put_writable:
  "writable os \<Longrightarrow> put cs os = os\<lparr>written := written os @ cs\<rparr>"
  by (simp add: put_def writable_def)

lemma writable_append [simp]:
  "writable (os\<lparr>written := w\<rparr>) = writable os"
  by (simp add: writable_def)

lemma write_facet_writable:
  assumes "writable os"
  shows "write_facet fmt fileType normal p0 p1 p2 os =
     os\<lparr>written := written os @ facet_chunks fmt fileType (normal, p0, p1, p2)\<rparr>"
  using assms
  by (simp add: write_facet_def facet_chunks_def ascii_facet_def ascii_vertex_def binary_record_def
      WriteInt16AsBinary_def WritePointAsBinary_def WriteNormalAsBinary_def put_writable)

lemma foldl_emit_facet_writable:
  assumes "writable os"
  shows "foldl (emit_facet fmt fileType points) os cs =
     os\<lparr>written := written os @ concat (map (\<lambda>c. facet_chunks fmt fileType (facet_of points c)) cs)\<rparr>"
  using assms
proof (induction cs arbitrary: os)
  case Nil
  show ?case by simp
next
  case (Cons c cs)
  obtain n p0 p1 p2 where f: "facet_of points c = (n, p0, p1, p2)" by (cases "facet_of points c") auto
  have e: "emit_facet fmt fileType points os c =
      os\<lparr>written := written os @ facet_chunks fmt fileType (facet_of points c)\<rparr>"
    using write_facet_writable [OF Cons.prems] by (simp add: emit_facet_def f)
  have "writable (emit_facet fmt fileType points os c)"
    using Cons.prems by (simp add: e)
  from Cons.IH [OF this] show ?case by (simp add: e)
qed

section \<open>The writer, on a valid cell buffer\<close>

text \<open>
  On a stream that takes output, \<open>WriteCells\<close> appends the count (binary files only),
  the facets of the qualifying cells in their order, and the closing line (text files
  only).
\<close>

lemma WriteCells_written:
  assumes "writable (m_OutputStream s)"
    and "m_NumberOfCells s = length cells" and "list_all (valid_cell (m_Points s)) cells"
  shows "WriteCells fmt (encode_cells cells) s =
     Inr (s\<lparr>m_OutputStream := (m_OutputStream s)\<lparr>written :=
            written (m_OutputStream s)
            @ (if m_FileType s = BINARY then [Int32 (of_nat (length (filter qualifying cells)))] else [])
            @ concat (map (\<lambda>c. facet_chunks fmt (m_FileType s) (facet_of (m_Points s) c))
                (filter qualifying cells))
            @ (if m_FileType s = ASCII then [Chars ''endsolid'', Chars [newline]] else [])\<rparr>\<rparr>)"
proof -
  have c: "count_triangles (length cells) (encode_cells cells) 0 0 =
      Inr (of_nat (length (filter qualifying cells)))"
    using count_triangles_encoded [of cells "[]" "[]" 0] by simp
  have w: "write_cells fmt ft (m_Points s) (length cells) (encode_cells cells) 0 os =
      Inr (foldl (emit_facet fmt ft (m_Points s)) os (filter qualifying cells))" for os ft
    using write_cells_encoded [OF assms(3), of fmt ft "[]" "[]" os] by simp
  show ?thesis
    using assms(1,2)
    by (simp add: WriteCells_def c w WriteInt32AsBinary_def put_writable foldl_emit_facet_writable)
qed

lemma state_of_Inr [simp]: "state_of (Inr s) = s"
  by (simp add: state_of_def)

lemma state_of_Inl [simp]: "state_of (Inl (e, s)) = s"
  by (simp add: state_of_def)

lemma thrown_Inr [simp]: "thrown (Inr s) = None"
  by (simp add: thrown_def)

lemma thrown_Inl [simp]: "thrown (Inl (e, s)) = Some e"
  by (simp add: thrown_def)

lemma and_then_Inr [simp]: "and_then (Inr s) f = f s"
  by (simp add: and_then_def)

lemma and_then_Inl [simp]: "and_then (Inl e) f = Inl e"
  by (simp add: and_then_def)

lemma file_size_append [simp]: "file_size (xs @ ys) = file_size xs + file_size ys"
  by (simp add: file_size_def)

lemma file_size_Cons [simp]: "file_size (x # xs) = nbytes x + file_size xs"
  by (simp add: file_size_def)

lemma file_size_Nil [simp]: "file_size [] = 0"
  by (simp add: file_size_def)

lemma file_size_binary_records:
  "file_size (concat (map (\<lambda>c. facet_chunks fmt BINARY (f c)) cs)) = 50 * length cs"
proof (induction cs)
  case Nil
  show ?case by simp
next
  case (Cons c cs)
  obtain n p0 p1 p2 where "f c = (n, p0, p1, p2)" by (cases "f c") auto
  with Cons show ?case by (simp add: facet_chunks_def binary_record_def)
qed

lemma WriteMeshInformation_binary:
  assumes "m_FileType s = BINARY" and "\<not> o_is_open (m_OutputStream s)" and "creatable (m_FileName s)"
  shows "WriteMeshInformation creatable s =
     Inr (s\<lparr>m_OutputStream := \<lparr>o_is_open = True, o_failbit = False,
            written = [Chars (setw_fill 80 ''binary STL generated from ITK'')]\<rparr>\<rparr>)"
  using assms
  by (simp add: WriteMeshInformation_def open_output_def ofstream_open_def put_def)

text \<open>
  C3, as the code has it. For a mesh written in binary file type with \<open>N\<close> qualifying
  triangles, \<open>WriteMeshInformation\<close> writes a header of exactly 80 bytes and \<open>WriteCells\<close>
  then writes a body of exactly \<open>4 + 50 * N\<close> bytes: the four bytes of the count and
  fifty bytes for each triangle.
\<close>

theorem binary_file_sizes:
  assumes "m_FileType s = BINARY" and "\<not> o_is_open (m_OutputStream s)" and "creatable (m_FileName s)"
    and "m_NumberOfCells s = length cells" and "list_all (valid_cell (m_Points s)) cells"
  shows "thrown (WriteMeshInformation creatable s) = None
     \<and> file_size (output_of (WriteMeshInformation creatable s)) = 80
     \<and> thrown (and_then (WriteMeshInformation creatable s) (WriteCells fmt (encode_cells cells))) = None
     \<and> file_size (output_of (and_then (WriteMeshInformation creatable s)
                                (WriteCells fmt (encode_cells cells))))
         = 80 + (4 + 50 * length (filter qualifying cells))"
proof -
  define s1 where "s1 = s\<lparr>m_OutputStream := \<lparr>o_is_open = True, o_failbit = False,
            written = [Chars (setw_fill 80 ''binary STL generated from ITK'')]\<rparr>\<rparr>"
  have h: "WriteMeshInformation creatable s = Inr s1"
    unfolding s1_def using WriteMeshInformation_binary [of s creatable] assms(1,2,3) by simp
  have sz: "file_size (written (m_OutputStream s1)) = 80"
    by (simp add: s1_def setw_fill_def)
  have "writable (m_OutputStream s1)" "m_NumberOfCells s1 = length cells"
    "list_all (valid_cell (m_Points s1)) cells" "m_FileType s1 = BINARY"
    using assms by (simp_all add: s1_def writable_def)
  from WriteCells_written [OF this(1,2,3), of fmt] this(4) sz
  have "thrown (WriteCells fmt (encode_cells cells) s1) = None
     \<and> file_size (output_of (WriteCells fmt (encode_cells cells) s1))
      = 80 + (4 + 50 * length (filter qualifying cells))"
    by (simp add: output_of_def file_size_binary_records)
  with h sz show ?thesis by (simp add: output_of_def)
qed

text \<open>The unit triangle: 80 bytes of header, 134 bytes in all.\<close>

theorem binary_file_sizes_witness:
  "file_size (output_of (WriteMeshInformation creatable_anywhere (unit_triangle_mesh BINARY))) = 80
   \<and> file_size (output_of (and_then (WriteMeshInformation creatable_anywhere (unit_triangle_mesh BINARY))
         (WriteCells fmt_blank [TRIANGLE_CELL, 3, 0, 1, 2]))) = 134"
proof -
  have 1: "m_FileType (unit_triangle_mesh BINARY) = BINARY"
    and 2: "\<not> o_is_open (m_OutputStream (unit_triangle_mesh BINARY))"
    and 4: "m_NumberOfCells (unit_triangle_mesh BINARY) = length [(TRIANGLE_CELL, [0, 1, 2::nat])]"
    and 5: "list_all (valid_cell (m_Points (unit_triangle_mesh BINARY))) [(TRIANGLE_CELL, [0, 1, 2])]"
    by (simp_all add: unit_triangle_mesh_def closed_ofstream_def valid_cell_def qualifying_def)
  have 3: "creatable_anywhere (m_FileName (unit_triangle_mesh BINARY))"
    by (simp add: creatable_anywhere_def)
  have e: "encode_cells [(TRIANGLE_CELL, [0, 1, 2])] = [TRIANGLE_CELL, 3, 0, 1, 2]"
    by (simp add: encode_cells_def encode_cell_def)
  have q: "length (filter qualifying [(TRIANGLE_CELL, [0, 1, 2])]) = 1"
    by (simp add: qualifying_def)
  from binary_file_sizes [of "unit_triangle_mesh BINARY" creatable_anywhere
      "[(TRIANGLE_CELL, [0, 1, 2])]" fmt_blank, OF 1 2 3 4 5] show ?thesis
    unfolding e q by simp
qed

text \<open>
  The body for one triangle is not \<open>12 + 1 * 50\<close> bytes long: the file is not 142 bytes.
\<close>

theorem binary_body_is_not_12_plus_50N:
  "file_size (output_of (and_then (WriteMeshInformation creatable_anywhere (unit_triangle_mesh BINARY))
         (WriteCells fmt_blank [TRIANGLE_CELL, 3, 0, 1, 2]))) \<noteq> 80 + (12 + 1 * 50)"
  by (simp add: output_of_def WriteMeshInformation_def open_output_def ofstream_open_def put_def
      unit_triangle_mesh_def closed_ofstream_def WriteCells_def isTriangle_def TRIANGLE_CELL_def
      write_facet_def WriteInt32AsBinary_def WriteInt16AsBinary_def WritePointAsBinary_def
      WriteNormalAsBinary_def setw_fill_def Let_def creatable_anywhere_def)

lemma take_drop_block:
  assumes "\<And>x. length (f x) = n" and "k < length xs"
  shows "take n (drop (n * k) (concat (map f xs) @ rest)) = f (xs ! k)"
  using assms(2)
proof (induction xs arbitrary: k)
  case Nil
  then show ?case by simp
next
  case (Cons x xs)
  show ?case
  proof (cases k)
    case 0
    then show ?thesis using assms(1) [of x] by simp
  next
    case (Suc j)
    with Cons.prems have j: "j < length xs" by simp
    have "drop (n * Suc j) (f x @ concat (map f xs) @ rest) = drop (n * j) (concat (map f xs) @ rest)"
      using assms(1) [of x] by simp
    with Cons.IH [OF j] Suc show ?thesis by simp
  qed
qed

lemma length_facet_chunks: "length (facet_chunks fmt fileType f) = facet_length fileType"
  by (cases f) (simp add: facet_chunks_def facet_length_def ascii_facet_def ascii_vertex_def
      binary_record_def)

text \<open>
  Where the counting loop and the writing loop agree. When every cell that qualifies has
  three point identifiers, each naming a stored point, the count written in a binary file
  is the number of qualifying cells, and in both file types the facets written are those
  of the qualifying cells, one each, in their order: a cell that is neither a triangle
  cell nor a polygon cell of three points adds nothing to the count and nothing to the
  file, so the file is the one written for the qualifying cells alone.
\<close>

lemma WriteCells_only_qualifying_cells:
  assumes "writable (m_OutputStream s)"
    and "m_NumberOfCells s = length cells" and "list_all (valid_cell (m_Points s)) cells"
  shows "WriteCells fmt (encode_cells cells) s =
     Inr (s\<lparr>m_OutputStream := (m_OutputStream s)\<lparr>written :=
            written (m_OutputStream s)
            @ (if m_FileType s = BINARY then [Int32 (of_nat (length (filter qualifying cells)))] else [])
            @ concat (map (\<lambda>c. facet_chunks fmt (m_FileType s) (facet_of (m_Points s) c))
                (filter qualifying cells))
            @ (if m_FileType s = ASCII then [Chars ''endsolid'', Chars [newline]] else [])\<rparr>\<rparr>)
     \<and> output_of (WriteCells fmt (encode_cells cells) s)
       = output_of (WriteCells fmt (encode_cells (filter qualifying cells))
                     (s\<lparr>m_NumberOfCells := length (filter qualifying cells)\<rparr>))"
proof -
  let ?qs = "filter qualifying cells"
  let ?s = "s\<lparr>m_NumberOfCells := length ?qs\<rparr>"
  have v: "list_all (valid_cell (m_Points ?s)) ?qs"
    using assms(3) by (simp add: list_all_iff)
  have a: "writable (m_OutputStream ?s)" "m_NumberOfCells ?s = length ?qs"
    using assms(1) by simp_all
  note 1 = WriteCells_written [OF assms, of fmt]
  note 2 = WriteCells_written [OF a v, of fmt]
  show ?thesis
    by (simp add: 1 2 output_of_def)
qed

text \<open>Of the four cells the two that qualify are counted and written.\<close>

lemma WriteCells_only_qualifying_cells_witness:
  "output_of (WriteCells fmt_blank
       [3, 4, 0, 1, 2, 0, TRIANGLE_CELL, 3, 0, 1, 2, POLYGON_CELL, 3, 2, 1, 0, POLYGON_CELL, 4, 0, 1, 2, 1]
       (open_mesh BINARY 4))
   = Int32 2 # binary_record (Vec3 0 0 1) (Vec3 0 0 0) (Vec3 1 0 0) (Vec3 0 1 0)
     @ binary_record (Vec3 0 0 (-1)) (Vec3 0 1 0) (Vec3 1 0 0) (Vec3 0 0 0)"
proof -
  have 1: "writable (m_OutputStream (open_mesh BINARY 4))"
    and 2: "m_NumberOfCells (open_mesh BINARY 4) = length mixed_cells"
    and 3: "list_all (valid_cell (m_Points (open_mesh BINARY 4))) mixed_cells"
    by (simp_all add: open_mesh_def unit_triangle_mesh_def open_ofstream_def writable_def
        mixed_cells_def valid_cell_def qualifying_def TRIANGLE_CELL_def POLYGON_CELL_def)
  have e: "encode_cells mixed_cells =
      [3, 4, 0, 1, 2, 0, TRIANGLE_CELL, 3, 0, 1, 2, POLYGON_CELL, 3, 2, 1, 0, POLYGON_CELL, 4, 0, 1, 2, 1]"
    by (simp add: encode_cells_def encode_cell_def mixed_cells_def)
  have q: "filter qualifying mixed_cells = [(TRIANGLE_CELL, [0, 1, 2]), (POLYGON_CELL, [2, 1, 0])]"
    by (simp add: mixed_cells_def qualifying_def TRIANGLE_CELL_def POLYGON_CELL_def)
  from WriteCells_only_qualifying_cells [OF 1 2 3, of fmt_blank] show ?thesis
    unfolding e q
    by (simp add: output_of_def open_mesh_def unit_triangle_mesh_def open_ofstream_def
        facet_chunks_def facet_of_def CrossProduct_def point_minus_def)
qed

text \<open>
  C5, where the code breaks it. The counting loop steps over a cell by the number of
  points the buffer gives for it; the writing loop takes exactly three point identifiers
  of a cell it holds for a triangle. For a cell tagged as a triangle cell with four
  point identifiers the two loops part: in the buffer
  \<open>2 4 0 1 2 0 2 3 2 1 0\<close> of two cells, both tagged as triangle cells and so both
  qualifying, the counting loop finds two triangles and the binary file states the
  count 2, but the writing loop resumes one place early, reads the last point identifier
  of the first cell as the tag of the second, and writes the record of the first cell
  only. The second cell is counted and not written, in the binary file; in the text file
  it is not written either.
\<close>

theorem WriteCells_counts_a_triangle_it_does_not_write:
  "encode_cells long_triangle_cells = [TRIANGLE_CELL, 4, 0, 1, 2, 0, TRIANGLE_CELL, 3, 2, 1, 0]
   \<and> list_all qualifying long_triangle_cells
   \<and> count_triangles 2 (encode_cells long_triangle_cells) 0 0 = Inr 2
   \<and> thrown (WriteCells fmt_blank (encode_cells long_triangle_cells) (open_mesh BINARY 2)) = None
   \<and> output_of (WriteCells fmt_blank (encode_cells long_triangle_cells) (open_mesh BINARY 2))
     = Int32 2 # binary_record (Vec3 0 0 1) (Vec3 0 0 0) (Vec3 1 0 0) (Vec3 0 1 0)
   \<and> thrown (WriteCells fmt_blank (encode_cells long_triangle_cells) (open_mesh ASCII 2)) = None
   \<and> output_of (WriteCells fmt_blank (encode_cells long_triangle_cells) (open_mesh ASCII 2))
     = ascii_facet fmt_blank (Vec3 0 0 1) (Vec3 0 0 0) (Vec3 1 0 0) (Vec3 0 1 0)
       @ [Chars ''endsolid'', Chars [newline]]"
  by (simp add: long_triangle_cells_def encode_cells_def encode_cell_def qualifying_def
      numeral_2_eq_2 output_of_def WriteCells_def open_mesh_def
      unit_triangle_mesh_def open_ofstream_def isTriangle_def TRIANGLE_CELL_def POLYGON_CELL_def
      write_facet_def WriteInt32AsBinary_def WriteInt16AsBinary_def WritePointAsBinary_def
      WriteNormalAsBinary_def put_def Let_def binary_record_def ascii_facet_def ascii_vertex_def
      CrossProduct_def point_minus_def)

text \<open>
  C6. For every triangle written, in either file type, the normal of its facet is the
  cross product of the edge vectors \<open>p2 - p1\<close> and \<open>p0 - p1\<close>, in that order, as it comes:
  the fields of the \<open>k\<close>-th facet in the file are those of that normal and of the
  three points. Arithmetic is that of the component type; for \<open>p0 = (0,0,0)\<close>,
  \<open>p1 = (1,0,0)\<close>, \<open>p2 = (0,1,0)\<close> every value is 0, 1 or -1 and the normal is \<open>(0,0,1)\<close>
  in every ring.
\<close>

theorem WriteCells_normal_is_cross_product:
  assumes "writable (m_OutputStream s)"
    and "m_NumberOfCells s = length cells" and "list_all (valid_cell (m_Points s)) cells"
    and "k < length (filter qualifying cells)"
    and "snd (filter qualifying cells ! k) = [i0, i1, i2]"
    and "p0 = m_Points s ! i0" and "p1 = m_Points s ! i1" and "p2 = m_Points s ! i2"
  shows "thrown (WriteCells fmt (encode_cells cells) s) = None
     \<and> take (facet_length (m_FileType s))
          (drop (length (written (m_OutputStream s)) + (if m_FileType s = BINARY then 1 else 0)
                 + facet_length (m_FileType s) * k)
             (output_of (WriteCells fmt (encode_cells cells) s)))
       = facet_chunks fmt (m_FileType s)
           (CrossProduct (point_minus p2 p1) (point_minus p0 p1), p0, p1, p2)
     \<and> CrossProduct (point_minus (Vec3 0 1 0) (Vec3 1 0 0)) (point_minus (Vec3 0 0 0) (Vec3 1 0 0))
       = (Vec3 0 0 1 :: 'a::ring_1 vec3)"
proof -
  let ?qs = "filter qualifying cells"
  let ?f = "\<lambda>c. facet_chunks fmt (m_FileType s) (facet_of (m_Points s) c)"
  let ?tail = "if m_FileType s = ASCII then [Chars ''endsolid'', Chars [newline]] else []"
  have blk: "take (facet_length (m_FileType s))
        (drop (facet_length (m_FileType s) * k) (concat (map ?f ?qs) @ ?tail)) = ?f (?qs ! k)"
    by (rule take_drop_block [OF length_facet_chunks assms(4)])
  have f: "facet_of (m_Points s) (?qs ! k) =
      (CrossProduct (point_minus p2 p1) (point_minus p0 p1), p0, p1, p2)"
    using assms(5,6,7,8) by (simp add: facet_of_def Let_def)
  let ?w0 = "written (m_OutputStream s)"
  let ?cnt = "if m_FileType s = BINARY then [Int32 (of_nat (length ?qs))] else []"
  have r: "WriteCells fmt (encode_cells cells) s =
      Inr (s\<lparr>m_OutputStream := (m_OutputStream s)\<lparr>written :=
             (?w0 @ ?cnt) @ (concat (map ?f ?qs) @ ?tail)\<rparr>\<rparr>)"
    using WriteCells_written [OF assms(1,2,3), of fmt] by simp
  have out: "output_of (WriteCells fmt (encode_cells cells) s) =
      (?w0 @ ?cnt) @ (concat (map ?f ?qs) @ ?tail)"
    by (simp only: r output_of_def state_of_Inr) simp
  have len: "length ?w0 + (if m_FileType s = BINARY then 1 else 0) + facet_length (m_FileType s) * k
      = length (?w0 @ ?cnt) + facet_length (m_FileType s) * k"
    by simp
  have "drop (length (?w0 @ ?cnt) + facet_length (m_FileType s) * k)
          ((?w0 @ ?cnt) @ (concat (map ?f ?qs) @ ?tail))
        = drop (facet_length (m_FileType s) * k) (concat (map ?f ?qs) @ ?tail)"
    by (simp only: drop_append) simp
  then have "take (facet_length (m_FileType s))
          (drop (length ?w0 + (if m_FileType s = BINARY then 1 else 0)
                 + facet_length (m_FileType s) * k)
             (output_of (WriteCells fmt (encode_cells cells) s))) = ?f (?qs ! k)"
    by (simp only: out len blk)
  moreover have "thrown (WriteCells fmt (encode_cells cells) s) = None"
    by (simp only: r thrown_Inr)
  moreover have "CrossProduct (point_minus (Vec3 0 1 0) (Vec3 1 0 0))
      (point_minus (Vec3 0 0 0) (Vec3 1 0 0)) = (Vec3 0 0 1 :: 'a vec3)"
    by (simp add: CrossProduct_def point_minus_def)
  ultimately show ?thesis by (simp only: f simp_thms)
qed

text \<open>
  For \<open>p0 = (0,0,0)\<close>, \<open>p1 = (1,0,0)\<close>, \<open>p2 = (0,1,0)\<close> the normal written is \<open>(0,0,1)\<close>.
\<close>

theorem WriteCells_normal_unit_triangle_witness:
  "take 13 (drop 1 (output_of (WriteCells fmt_blank [TRIANGLE_CELL, 3, 0, 1, 2] (open_mesh BINARY 1))))
   = binary_record (Vec3 0 0 1) (Vec3 0 0 0) (Vec3 1 0 0) (Vec3 0 1 0)"
proof -
  let ?s = "open_mesh BINARY 1"
  let ?cells = "[(TRIANGLE_CELL, [0, 1, 2::nat])]"
  have 1: "writable (m_OutputStream ?s)"
    and 2: "m_NumberOfCells ?s = length ?cells"
    and 3: "list_all (valid_cell (m_Points ?s)) ?cells"
    and 4: "0 < length (filter qualifying ?cells)"
    and 5: "snd (filter qualifying ?cells ! 0) = [0, 1, 2]"
    and 6: "Vec3 0 0 0 = m_Points ?s ! 0" and 7: "Vec3 1 0 0 = m_Points ?s ! 1"
    and 8: "Vec3 0 1 0 = m_Points ?s ! 2"
    by (simp_all add: open_mesh_def unit_triangle_mesh_def open_ofstream_def writable_def
        valid_cell_def qualifying_def)
  have e: "encode_cells ?cells = [TRIANGLE_CELL, 3, 0, 1, 2]"
    by (simp add: encode_cells_def encode_cell_def)
  have n: "CrossProduct (point_minus (Vec3 0 1 0) (Vec3 1 0 0)) (point_minus (Vec3 0 0 0) (Vec3 1 0 0))
      = (Vec3 0 0 1 :: real vec3)"
    by (simp add: CrossProduct_def point_minus_def)
  from WriteCells_normal_is_cross_product [OF 1 2 3 4 5 6 7 8, of fmt_blank, THEN conjunct2,
      THEN conjunct1]
  show ?thesis
    unfolding e n
    by (simp add: open_mesh_def unit_triangle_mesh_def open_ofstream_def facet_length_def
        facet_chunks_def)
qed

section \<open>Format detection\<close>


lemma str_find_hd: "str_find s (p # ps) \<Longrightarrow> p \<in> set s"
  by (induction s) auto

text \<open>Parsing never changes the file type, whether it returns or throws.\<close>

lemma FileType_ReadStringFromAscii:
  "m_FileType (state_of (ReadStringFromAscii expected s)) = m_FileType s"
  by (simp add: ReadStringFromAscii_def Let_def split: prod.splits)

lemma FileType_ReadStringFromAscii_Inr:
  "ReadStringFromAscii expected s = Inr s' \<Longrightarrow> m_FileType s' = m_FileType s"
  using FileType_ReadStringFromAscii [of expected s] by simp

lemma FileType_ReadStringFromAscii_Inl:
  "ReadStringFromAscii expected s = Inl (e, s') \<Longrightarrow> m_FileType s' = m_FileType s"
  using FileType_ReadStringFromAscii [of expected s] by simp

lemma FileType_CheckStringFromAscii:
  "m_FileType (snd (CheckStringFromAscii expected s)) = m_FileType s"
  by (simp add: CheckStringFromAscii_def Let_def split: prod.splits)

lemma FileType_ReadPointAsAscii_Inr:
  "ReadPointAsAscii scan p s = Inr (q, s') \<Longrightarrow> m_FileType s' = m_FileType s"
  by (auto simp: ReadPointAsAscii_def InsertPointIntoSet_def Let_def
      split: prod.splits if_splits sum.splits option.splits)

lemma FileType_ReadPointAsAscii_Inl:
  "ReadPointAsAscii scan p s = Inl (e, s') \<Longrightarrow> m_FileType s' = m_FileType s"
  by (auto simp: ReadPointAsAscii_def InsertPointIntoSet_def Let_def
      split: prod.splits if_splits sum.splits option.splits)

lemma FileType_ReadFacet_Inr:
  "ReadFacet scan ps s = Inr (qs, s') \<Longrightarrow> m_FileType s' = m_FileType s"
  by (auto simp: ReadFacet_def split: prod.splits sum.splits
      dest!: FileType_ReadStringFromAscii_Inr FileType_ReadPointAsAscii_Inr)

lemma FileType_ReadFacet_Inl:
  "ReadFacet scan ps s = Inl (e, s') \<Longrightarrow> m_FileType s' = m_FileType s"
  by (auto simp: ReadFacet_def split: prod.splits sum.splits
      dest!: FileType_ReadStringFromAscii_Inr FileType_ReadPointAsAscii_Inr
             FileType_ReadStringFromAscii_Inl FileType_ReadPointAsAscii_Inl)

lemma FileType_ReadFacets:
  "m_FileType (state_of (ReadFacets scan ps s)) = m_FileType s"
proof (induction scan ps s rule: ReadFacets.induct)
  case (1 scan ps s)
  obtain found s1 where c: "CheckStringFromAscii ''endsolid'' s = (found, s1)" by force
  have s1: "m_FileType s1 = m_FileType s"
    using FileType_CheckStringFromAscii [of "''endsolid''" s] c by simp
  show ?case
  proof (cases found)
    case True
    with c s1 show ?thesis by (subst ReadFacets.simps) simp
  next
    case False
    show ?thesis
    proof (cases "ReadFacet scan ps s1")
      case (Inl a)
      obtain e s' where a: "a = (e, s')" by (cases a) auto
      with Inl have "m_FileType s' = m_FileType s1" using FileType_ReadFacet_Inl by blast
      with c s1 False Inl a show ?thesis by (subst ReadFacets.simps) simp
    next
      case (Inr b)
      obtain ps1 s2 where b: "b = (ps1, s2)" by (cases b) auto
      with Inr have t: "m_FileType s2 = m_FileType s1" using FileType_ReadFacet_Inr by blast
      from "1.IH" [OF c [symmetric] False Inr b [symmetric]]
      have "m_FileType (state_of (ReadFacets scan ps1 s2)) = m_FileType s2" .
      with c s1 False Inr b t show ?thesis by (subst ReadFacets.simps) simp
    qed
  qed
qed

lemma FileType_skip_read [simp]: "m_FileType (skip_read n s) = m_FileType s"
  by (simp add: skip_read_def)

lemma FileType_ReadTriangles: "m_FileType (ReadTriangles n s) = m_FileType s"
proof (induction n s rule: ReadTriangles.induct)
  case (1 n s)
  show ?case
  proof (cases "n = 0")
    case True
    then show ?thesis by (subst ReadTriangles.simps) simp
  next
    case False
    with "1.IH" show ?thesis
      by (subst ReadTriangles.simps)
         (simp add: ReadInt16AsBinary_def ReadPointAsBinary_def ReadNormalAsBinary_def)
  qed
qed

lemma FileType_ReadMeshInternalFromBinary:
  "m_FileType (state_of (ReadMeshInternalFromBinary s)) = m_FileType s"
  by (simp add: ReadMeshInternalFromBinary_def Let_def FileType_ReadTriangles SetNumberOfCells_def
      split: prod.splits list.splits)

lemma FileType_ReadMeshInternalFromAscii:
  "m_FileType (state_of (ReadMeshInternalFromAscii scan s)) = m_FileType s"
  by (simp add: ReadMeshInternalFromAscii_def FileType_ReadFacets)

lemma state_of_close:
  "state_of (case r of Inl e \<Rightarrow> Inl e | Inr s3 \<Rightarrow> Inr (s3\<lparr>m_InputStream := f s3\<rparr>))
     = (case r of Inl e \<Rightarrow> state_of r | Inr s3 \<Rightarrow> s3\<lparr>m_InputStream := f s3\<rparr>)"
  by (cases r) auto

lemma FileType_after_close:
  "m_FileType (state_of (case r of Inl e \<Rightarrow> Inl e | Inr s3 \<Rightarrow> Inr (s3\<lparr>m_InputStream := f s3\<rparr>)))
     = m_FileType (state_of r)"
  by (cases r) auto

text \<open>
  C4. For every input file that can be opened, \<open>ReadMeshInformation\<close> classifies the file
  by its first line, read up to the first line terminator: the file type is ASCII if
  that line contains \<open>solid\<close> anywhere and BINARY otherwise, whatever the file type
  was before and whether or not the parse that follows succeeds.
\<close>

theorem ReadMeshInformation_file_type:
  assumes "m_FileType s = ASCII \<or> m_FileType s = BINARY"
    and "\<not> is_open (m_InputStream s)" and "fs (m_FileName s) = Some content"
  shows "m_FileType (state_of (ReadMeshInformation fs scan s)) =
     (if str_find (first_line content) ''solid'' then ASCII else BINARY)"
proof -
  let ?is = "\<lparr>is_open = True, buf = content, gpos = 0, eofbit = False, failbit = False\<rparr>"
  have o: "open_input fs s = s\<lparr>m_InputStream := ?is\<rparr>"
    using assms by (auto simp: open_input_def ifstream_open_def)
  obtain line is1 where g: "getline ?is [] newline = (line, is1)" by force
  then have l: "line = first_line content"
    by (auto simp: getline_def good_def avail_def first_line_def Let_def split: if_splits)
  show ?thesis
    by (simp add: ReadMeshInformation_def o g l Let_def FileType_after_close
        FileType_ReadMeshInternalFromAscii FileType_ReadMeshInternalFromBinary)
qed

text \<open>
  A first line \<open>solid cube\<close> gives ASCII; 80 bytes without \<open>solid\<close> and a count give
  BINARY.
\<close>

theorem ReadMeshInformation_file_type_witness:
  "m_FileType (state_of (ReadMeshInformation [''cube.stl'' \<mapsto> solid_cube_file] scan_digits
      (new_reader ''cube.stl'' BINARY))) = ASCII
   \<and> m_FileType (state_of (ReadMeshInformation [''mesh.stl'' \<mapsto> opaque_header_file] scan_digits
      (new_reader ''mesh.stl'' ASCII))) = BINARY"
proof -
  have a: "m_FileType (new_reader ''cube.stl'' BINARY) = ASCII \<or> m_FileType (new_reader ''cube.stl'' BINARY) = BINARY"
    and b: "\<not> is_open (m_InputStream (new_reader ''cube.stl'' BINARY))"
    and c: "[''cube.stl'' \<mapsto> solid_cube_file] (m_FileName (new_reader ''cube.stl'' BINARY)) = Some solid_cube_file"
    by (simp_all add: new_reader_def closed_ifstream_def)
  have a': "m_FileType (new_reader ''mesh.stl'' ASCII) = ASCII \<or> m_FileType (new_reader ''mesh.stl'' ASCII) = BINARY"
    and b': "\<not> is_open (m_InputStream (new_reader ''mesh.stl'' ASCII))"
    and c': "[''mesh.stl'' \<mapsto> opaque_header_file] (m_FileName (new_reader ''mesh.stl'' ASCII)) = Some opaque_header_file"
    by (simp_all add: new_reader_def closed_ifstream_def)
  have 1: "str_find (first_line solid_cube_file) ''solid''"
    by (simp add: first_line_def solid_cube_file_def newline_def)
  have "first_line opaque_header_file = replicate 80 (CHR ''x'') @ [CHR 0x00, CHR 0x00, CHR 0x00, CHR 0x00]"
    by (simp add: first_line_def opaque_header_file_def newline_def takeWhile_append2)
  then have 2: "\<not> str_find (first_line opaque_header_file) ''solid''"
    using str_find_hd [of "first_line opaque_header_file" "CHR ''s''" "''olid''"] by auto
  from ReadMeshInformation_file_type [of "new_reader ''cube.stl'' BINARY"
      "[''cube.stl'' \<mapsto> solid_cube_file]" solid_cube_file scan_digits, OF a b c]
    ReadMeshInformation_file_type [of "new_reader ''mesh.stl'' ASCII"
      "[''mesh.stl'' \<mapsto> opaque_header_file]" opaque_header_file scan_digits, OF a' b' c'] 1 2
  show ?thesis by simp
qed

section \<open>The binary reader\<close>

lemma NumberOfCells_skip_read [simp]: "m_NumberOfCells (skip_read n s) = m_NumberOfCells s"
  by (simp add: skip_read_def)

lemma NumberOfCells_ReadTriangles: "m_NumberOfCells (ReadTriangles n s) = m_NumberOfCells s"
proof (induction n s rule: ReadTriangles.induct)
  case (1 n s)
  show ?case
  proof (cases "n = 0")
    case True
    then show ?thesis by (subst ReadTriangles.simps) simp
  next
    case False
    with "1.IH" show ?thesis
      by (subst ReadTriangles.simps)
         (simp add: ReadInt16AsBinary_def ReadPointAsBinary_def ReadNormalAsBinary_def)
  qed
qed

lemma is_open_at_offset [simp]: "is_open (at_offset content n)"
  by (simp add: at_offset_def)

lemma getline_at_offset:
  assumes "newline \<notin> set line"
  shows "getline (at_offset (pre @ line @ newline # rest) (length pre)) str newline =
     (line, at_offset (pre @ line @ newline # rest) (length pre + length line + 1))"
proof -
  have "takeWhile (\<lambda>c. c \<noteq> newline) (line @ newline # rest) = line"
    using assms by (induction line) auto
  then show ?thesis
    by (simp add: getline_def good_def avail_def at_offset_def Let_def)
qed

lemma istream_read_at_offset:
  assumes "n + k \<le> length content"
  shows "istream_read (at_offset content n) k = (take k (drop n content), at_offset content (n + k))"
  using assms by (simp add: istream_read_def good_def avail_def at_offset_def Let_def)

lemma skip_read_at_offset:
  assumes "m_InputStream s = at_offset content n" and "n + k \<le> length content"
  shows "skip_read k s = s\<lparr>m_InputStream := at_offset content (n + k)\<rparr>"
  using assms by (simp add: skip_read_def istream_read_at_offset)

lemma read_record_at_offset:
  assumes "m_InputStream s = at_offset content n" and "n + 50 \<le> length content"
  shows "ReadInt16AsBinary (ReadPointAsBinary (ReadPointAsBinary (ReadPointAsBinary
           (ReadNormalAsBinary s)))) = s\<lparr>m_InputStream := at_offset content (n + 50)\<rparr>"
proof -
  have step: "skip_read k (s\<lparr>m_InputStream := at_offset content m\<rparr>)
      = s\<lparr>m_InputStream := at_offset content (m + k)\<rparr>" if "m + k \<le> length content" for m k
    using skip_read_at_offset [of "s\<lparr>m_InputStream := at_offset content m\<rparr>" content m k] that
    by simp
  have s: "s = s\<lparr>m_InputStream := at_offset content n\<rparr>"
    using assms(1) by simp
  have "ReadNormalAsBinary s = s\<lparr>m_InputStream := at_offset content (n + 12)\<rparr>"
    unfolding ReadNormalAsBinary_def using assms(2) by (subst s) (simp add: step add.commute)
  moreover have "ReadPointAsBinary (s\<lparr>m_InputStream := at_offset content m\<rparr>)
      = s\<lparr>m_InputStream := at_offset content (m + 12)\<rparr>" if "m + 12 \<le> length content" for m
    unfolding ReadPointAsBinary_def using that by (simp add: step add.commute)
  ultimately show ?thesis
    using assms(2) by (simp add: ReadInt16AsBinary_def step add.commute)
qed

lemma ReadTriangles_at_offset:
  assumes "m_InputStream s = at_offset content n" and "n + 50 * unat k \<le> length content"
  shows "ReadTriangles k s = s\<lparr>m_InputStream := at_offset content (n + 50 * unat k)\<rparr>"
  using assms
proof (induction k s arbitrary: n rule: ReadTriangles.induct)
  case (1 k s)
  show ?case
  proof (cases "k = 0")
    case True
    with "1.prems" show ?thesis by (subst ReadTriangles.simps) simp
  next
    case False
    then have u: "unat k = Suc (unat (k - 1))"
      using measure_unat [of k] by (simp add: unat_minus_one)
    let ?s1 = "s\<lparr>m_InputStream := at_offset content (n + 50)\<rparr>"
    have r: "ReadInt16AsBinary (ReadPointAsBinary (ReadPointAsBinary (ReadPointAsBinary
           (ReadNormalAsBinary s)))) = ?s1"
      using read_record_at_offset [OF "1.prems"(1)] "1.prems"(2) u by simp
    have "ReadTriangles (k - 1) ?s1
        = ?s1\<lparr>m_InputStream := at_offset content (n + 50 + 50 * unat (k - 1))\<rparr>"
      using "1.IH" [OF False, of "n + 50"] "1.prems"(2) u by (simp add: r)
    with False u show ?thesis
      by (subst ReadTriangles.simps) (simp add: r add.assoc)
  qed
qed

text \<open>
  From the offset where the stream stands, \<open>ReadMeshInternalFromBinary\<close> takes 80 bytes
  of header, the four bytes of the count and fifty bytes for each triangle, and records
  the count, converted with its sign, as the number of cells.
\<close>

lemma ReadMeshInternalFromBinary_at_offset:
  assumes "m_InputStream s = at_offset content n"
    and "drop (n + 80) content = b0 # b1 # b2 # b3 # records"
    and "50 * unat (le32 b0 b1 b2 b3) \<le> length records"
  shows "ReadMeshInternalFromBinary s =
     Inr (s\<lparr>m_NumberOfCells := unat (scast (le32 b0 b1 b2 b3) :: 64 word),
            m_InputStream := at_offset content (n + 84 + 50 * unat (le32 b0 b1 b2 b3))\<rparr>)"
proof -
  have "length (drop (n + 80) content) = 4 + length records"
    by (simp only: assms(2)) simp
  then have len: "length content = n + 84 + length records"
    by simp
  have h: "istream_read (at_offset content n) 80 = (take 80 (drop n content), at_offset content (n + 80))"
    using istream_read_at_offset [of n 80 content] len by simp
  have c: "istream_read (at_offset content (n + 80)) 4 = ([b0, b1, b2, b3], at_offset content (n + 84))"
    using istream_read_at_offset [of "n + 80" 4 content] len by (simp add: assms(2) add.commute)
  let ?k = "le32 b0 b1 b2 b3"
  let ?s1 = "SetNumberOfCells ?k (s\<lparr>m_InputStream := at_offset content (n + 84)\<rparr>)"
  have "ReadTriangles ?k ?s1 = ?s1\<lparr>m_InputStream := at_offset content (n + 84 + 50 * unat ?k)\<rparr>"
    using ReadTriangles_at_offset [of ?s1 content "n + 84" ?k] len assms(3)
    by (simp add: SetNumberOfCells_def)
  then show ?thesis
    by (simp add: ReadMeshInternalFromBinary_def assms(1) h c SetNumberOfCells_def Let_def)
qed

lemma SetFileType_unless_set:
  "(if m_FileType s \<noteq> t then s\<lparr>m_FileType := t\<rparr> else s) = s\<lparr>m_FileType := t\<rparr>"
  by simp

text \<open>
  C1, as the code has it. After the first line has been read for the format detection,
  the stream is not moved back to offset 0: the binary parse starts behind the first
  line terminator of the file. For a file whose first line has no \<open>solid\<close>, the 80 bytes
  taken as header are those that follow the first line, the count is read from the four
  bytes after them, and the number of cells is that count.
\<close>

theorem binary_read_starts_after_first_line:
  assumes "m_FileType s = ASCII \<or> m_FileType s = BINARY"
    and "\<not> is_open (m_InputStream s)"
    and "fs (m_FileName s) = Some (line @ newline # rest)"
    and "newline \<notin> set line" and "\<not> str_find line ''solid''"
    and "drop 80 rest = b0 # b1 # b2 # b3 # records"
    and "50 * unat (le32 b0 b1 b2 b3) \<le> length records"
  shows "ReadMeshInformation fs scan s =
     Inr (s\<lparr>m_FileType := BINARY,
            m_NumberOfCells := unat (scast (le32 b0 b1 b2 b3) :: 64 word),
            m_InputStream := ifstream_close (at_offset (line @ newline # rest)
               (length line + 1 + 84 + 50 * unat (le32 b0 b1 b2 b3)))\<rparr>)"
proof -
  let ?content = "line @ newline # rest"
  have o: "open_input fs s = s\<lparr>m_InputStream := at_offset ?content 0\<rparr>"
    using assms(1,2,3) by (auto simp: open_input_def ifstream_open_def at_offset_def)
  have g: "getline (at_offset ?content 0) [] newline = (line, at_offset ?content (length line + 1))"
    using getline_at_offset [OF assms(4), of "[]" rest "[]"] by simp
  let ?s2 = "s\<lparr>m_InputStream := at_offset ?content (length line + 1), m_FileType := BINARY\<rparr>"
  have d: "drop (length line + 1 + 80) ?content = b0 # b1 # b2 # b3 # records"
    using assms(6) by simp
  have b: "ReadMeshInternalFromBinary ?s2 =
     Inr (?s2\<lparr>m_NumberOfCells := unat (scast (le32 b0 b1 b2 b3) :: 64 word),
            m_InputStream := at_offset ?content (length line + 1 + 84 + 50 * unat (le32 b0 b1 b2 b3))\<rparr>)"
    by (rule ReadMeshInternalFromBinary_at_offset [OF _ d assms(7)]) simp
  have r: "ReadMeshInformation fs scan s =
      (case ReadMeshInternalFromBinary ?s2 of
         Inl e \<Rightarrow> Inl e
       | Inr s3 \<Rightarrow> Inr (s3\<lparr>m_InputStream := ifstream_close (m_InputStream s3)\<rparr>))"
  proof (cases "m_FileType s = BINARY")
    case True
    then have eq: "s\<lparr>m_InputStream := i, m_FileType := BINARY\<rparr> = s\<lparr>m_InputStream := i\<rparr>" for i
      by (cases s) simp
    from True assms(5) show ?thesis
      by (simp add: ReadMeshInformation_def o g Let_def eq)
  next
    case False
    with assms(5) show ?thesis
      by (simp add: ReadMeshInformation_def o g Let_def)
  qed
  show ?thesis
    by (simp only: r b sum.case) simp
qed

text \<open>
  The reader takes the header from offset 7, reads the count 0 at offset 87, and stops
  at offset 91 with no cells.
\<close>

theorem binary_read_one_triangle_witness:
  "length one_triangle_file = 134
   \<and> le32 (one_triangle_file ! 80) (one_triangle_file ! 81) (one_triangle_file ! 82)
        (one_triangle_file ! 83) = 1
   \<and> ReadMeshInformation [''mesh.stl'' \<mapsto> one_triangle_file] scan_digits (new_reader ''mesh.stl'' BINARY)
     = Inr ((new_reader ''mesh.stl'' BINARY)\<lparr>m_NumberOfCells := 0,
              m_InputStream := ifstream_close (at_offset one_triangle_file 91)\<rparr>)"
proof -
  let ?s = "new_reader ''mesh.stl'' BINARY"
  let ?rest = "replicate 73 (CHR '' '') @ [CHR 0x01, CHR 0x00, CHR 0x00, CHR 0x00] @ replicate 50 (CHR 0x00)"
  have f: "one_triangle_file = ''binary'' @ newline # ?rest"
    by (simp add: one_triangle_file_def)
  have 1: "m_FileType ?s = ASCII \<or> m_FileType ?s = BINARY"
    and 2: "\<not> is_open (m_InputStream ?s)"
    and 3: "[''mesh.stl'' \<mapsto> one_triangle_file] (m_FileName ?s) = Some (''binary'' @ newline # ?rest)"
    and 4: "newline \<notin> set ''binary''"
    and 5: "\<not> str_find ''binary'' ''solid''"
    by (simp_all add: new_reader_def closed_ifstream_def f newline_def)
  have 6: "drop 80 ?rest = CHR 0x00 # CHR 0x00 # CHR 0x00 # CHR 0x00 # replicate 43 (CHR 0x00)"
    by (simp add: numeral_eq_Suc)
  have z: "le32 (CHR 0x00) (CHR 0x00) (CHR 0x00) (CHR 0x00) = 0"
    by (simp add: le32_def)
  have 7: "50 * unat (le32 (CHR 0x00) (CHR 0x00) (CHR 0x00) (CHR 0x00)) \<le> length (replicate 43 (CHR 0x00))"
    by (simp add: z)
  have n: "length one_triangle_file = 134"
    by (simp add: one_triangle_file_def)
  have c: "le32 (one_triangle_file ! 80) (one_triangle_file ! 81) (one_triangle_file ! 82)
        (one_triangle_file ! 83) = 1"
    by (simp add: one_triangle_file_def nth_append le32_def)
  have t: "?s\<lparr>m_FileType := BINARY\<rparr> = ?s"
    by (simp add: new_reader_def)
  from binary_read_starts_after_first_line [of ?s "[''mesh.stl'' \<mapsto> one_triangle_file]"
      "''binary''" ?rest "CHR 0x00" "CHR 0x00" "CHR 0x00" "CHR 0x00" "replicate 43 (CHR 0x00)" scan_digits,
      OF 1 2 3 4 5 6 7]
  have "ReadMeshInformation [''mesh.stl'' \<mapsto> one_triangle_file] scan_digits ?s
     = Inr (?s\<lparr>m_NumberOfCells := 0,
              m_InputStream := ifstream_close (at_offset one_triangle_file 91)\<rparr>)"
    unfolding z f [symmetric] by (simp add: new_reader_def)
  with n c show ?thesis by simp
qed

section \<open>Parse errors of the text reader\<close>








text \<open>The definitions that a run of the text reader on a given file unfolds.\<close>

lemmas eval_defs = ReadMeshInformation_def open_input_def ifstream_open_def ifstream_close_def
  getline_def good_def avail_def newline_def text_of_def new_reader_def closed_ifstream_def
  ReadMeshInternalFromAscii_def CheckStringFromAscii_def ReadFacet_def ReadStringFromAscii_def
  ReadPointAsAscii_def extract_word_def extract_point_def extract_float_def isspace_def
  InsertPointIntoSet_def scan_digits_def is_digit_def PointCompare_def Let_def



text \<open>
  A blank line before \<open>facet normal\<close> is passed over without being counted: in the
  file with the blank line, the line \<open>endfacet\<close> that stands where \<open>endloop\<close> is due is
  line 8, and it is reported as line 7.
\<close>

lemma blank_line_shifts_line_number:
  "thrown (ReadMeshInformation [''m.stl'' \<mapsto> text_of blank_line_lines] scan_digits
      (new_reader ''m.stl'' ASCII)) = Some (ParsingErrorMissed ''endloop'' 7 ''endfacet'')
   \<and> blank_line_lines ! 7 = ''endfacet''"
  by (simp add: blank_line_lines_def eval_defs ReadFacets.simps)

section \<open>Point insertion while reading\<close>

text \<open>The set holds each point once: inserting adds the point unless it is there.\<close>

lemma set_set_insert: "set (set_insert p xs) = insert p (set xs)"
proof (induction xs)
  case Nil
  show ?case by simp
next
  case (Cons q qs)
  have "\<not> PointCompare p q \<Longrightarrow> \<not> PointCompare q p \<Longrightarrow> p = q"
    by (cases p; cases q) (auto simp: PointCompare_def split: if_splits)
  with Cons show ?case by auto
qed

text \<open>
  C2, as the code has it. \<open>InsertPointIntoSet\<close> inserts the point into \<open>m_PointsSet\<close> and
  changes nothing else: it returns no identifier, records none in \<open>m_PointsMap\<close>, and
  leaves \<open>m_LatestPointId\<close> as it was.
\<close>

theorem InsertPointIntoSet_assigns_no_id:
  "InsertPointIntoSet (Vec3 (Some x) (Some y) (Some z)) s
     = Inr (s\<lparr>m_PointsSet := set_insert (Vec3 x y z) (m_PointsSet s)\<rparr>)
   \<and> m_PointsMap (state_of (InsertPointIntoSet point s)) = m_PointsMap s
   \<and> m_LatestPointId (state_of (InsertPointIntoSet point s)) = m_LatestPointId s"
  by (simp add: InsertPointIntoSet_def split: option.splits)

text \<open>Inserting \<open>(0,0,0)\<close> twice leaves one point in the set, and no identifier.\<close>

lemma InsertPointIntoSet_twice:
  "and_then (InsertPointIntoSet (Vec3 (Some 0) (Some 0) (Some 0)) (new_reader ''m.stl'' ASCII))
     (InsertPointIntoSet (Vec3 (Some 0) (Some 0) (Some 0)))
   = Inr ((new_reader ''m.stl'' ASCII)\<lparr>m_PointsSet := [Vec3 0 0 0]\<rparr>)"
  by (simp add: InsertPointIntoSet_def new_reader_def PointCompare_def)

section \<open>Reading points and cells\<close>

text \<open>
  C9. For every call of \<open>ReadPoints\<close> or \<open>ReadCells\<close> the caller's buffer is left as it
  was. Both calls do the same: they open the input stream and, when that worked, close
  it again, or throw; nothing is read from the stream and no other member changes.
\<close>

theorem ReadPoints_ReadCells_leave_buffer:
  "fst (ReadPoints fs buffer s) = buffer
   \<and> fst (ReadCells fs buffer s) = buffer
   \<and> snd (ReadPoints fs buffer s) =
       (if is_open (m_InputStream (open_input fs s))
        then Inr (s\<lparr>m_InputStream := ifstream_close (m_InputStream (open_input fs s))\<rparr>)
        else Inl (UnableToOpenFile (m_FileName s), s\<lparr>m_InputStream := m_InputStream (open_input fs s)\<rparr>))
   \<and> snd (ReadCells fs buffer s) = snd (ReadPoints fs buffer s)
   \<and> gpos (m_InputStream (state_of (snd (ReadPoints fs buffer s))))
       = gpos (m_InputStream (open_input fs s))"
  by (auto simp: ReadPoints_def ReadCells_def open_input_def Let_def ifstream_close_def)

section \<open>The point dimension on writing\<close>

text \<open>
  The header is written without a look at the point dimension: \<open>WriteMeshInformation\<close>
  leaves the dimension and the component type as they were, and on a file that can be
  created it writes the 80 bytes of the binary header, or the 12 bytes of the first line
  of a text file.
\<close>

lemma WriteMeshInformation_keeps_points_type:
  "m_PointDimension (state_of (WriteMeshInformation creatable s)) = m_PointDimension s
   \<and> m_PointComponentType (state_of (WriteMeshInformation creatable s)) = m_PointComponentType s"
  by (simp add: WriteMeshInformation_def open_output_def Let_def)

lemma WriteMeshInformation_header_size:
  assumes "m_FileType s = ASCII \<or> m_FileType s = BINARY"
    and "\<not> o_is_open (m_OutputStream s)" and "creatable (m_FileName s)"
  shows "thrown (WriteMeshInformation creatable s) = None
     \<and> file_size (output_of (WriteMeshInformation creatable s))
       = (if m_FileType s = BINARY then 80 else 12)"
  using assms
  by (auto simp: WriteMeshInformation_def open_output_def ofstream_open_def put_def output_of_def
      setw_fill_def Let_def)

text \<open>
  C8, as the code has it. \<open>WritePointsTyped\<close> fails with the unsupported-dimension error
  for every point dimension other than 3, and so does \<open>WritePoints\<close> when the component
  type of the buffer is a known one; the object is left as it was, so \<open>WritePoints\<close>
  itself writes nothing. With the unknown component type \<open>WritePoints\<close> fails with the
  error for the component type, whatever the dimension. \<open>WritePoints\<close> never writes to
  the output stream. The bytes written before the failure are those of the calls before
  it: when \<open>WriteMeshInformation\<close> has been called first and has returned, the
  unsupported-dimension error is raised on the object as the header call left it, and,
  on a file it has created, with the header in the file: 80 bytes of a binary file, 12 of
  a text file.
\<close>

theorem WritePoints_dimension_error:
  "(m_PointDimension s \<noteq> 3 \<longrightarrow> WritePointsTyped convert1 buffer s = Inl (OnlySupports3DPoints, s))
   \<and> (m_PointDimension s \<noteq> 3 \<and> m_PointComponentType s \<noteq> UNKNOWNCOMPONENTTYPE \<longrightarrow>
        WritePoints convert buffer s = Inl (OnlySupports3DPoints, s))
   \<and> (m_PointComponentType s = UNKNOWNCOMPONENTTYPE \<longrightarrow>
        WritePoints convert buffer s = Inl (UnknownPointComponentType, s))
   \<and> m_OutputStream (state_of (WritePoints convert buffer s)) = m_OutputStream s
   \<and> (thrown (WriteMeshInformation creatable s) = None
        \<and> m_PointDimension s \<noteq> 3 \<and> m_PointComponentType s \<noteq> UNKNOWNCOMPONENTTYPE \<longrightarrow>
        and_then (WriteMeshInformation creatable s) (WritePoints convert buffer)
          = Inl (OnlySupports3DPoints, state_of (WriteMeshInformation creatable s)))
   \<and> ((m_FileType s = ASCII \<or> m_FileType s = BINARY) \<and> \<not> o_is_open (m_OutputStream s)
        \<and> creatable (m_FileName s)
        \<and> m_PointDimension s \<noteq> 3 \<and> m_PointComponentType s \<noteq> UNKNOWNCOMPONENTTYPE \<longrightarrow>
        thrown (and_then (WriteMeshInformation creatable s) (WritePoints convert buffer))
          = Some OnlySupports3DPoints
        \<and> file_size (output_of (and_then (WriteMeshInformation creatable s) (WritePoints convert buffer)))
          = (if m_FileType s = BINARY then 80 else 12))"
proof -
  have a: "WritePointsTyped c buffer t = Inl (OnlySupports3DPoints, t)"
    if "m_PointDimension t \<noteq> 3" for c t
    using that by (simp add: WritePointsTyped_def Let_def)
  have b: "WritePoints convert buffer t = Inl (OnlySupports3DPoints, t)"
    if "m_PointDimension t \<noteq> 3" and "m_PointComponentType t \<noteq> UNKNOWNCOMPONENTTYPE" for t
    using that
    by (auto simp: WritePoints_def WritePointsTyped_def Let_def split: IOComponentType.splits)
  have c: "WritePoints convert buffer s = Inl (UnknownPointComponentType, s)"
    if "m_PointComponentType s = UNKNOWNCOMPONENTTYPE"
    using that by (simp add: WritePoints_def)
  have d: "m_OutputStream (state_of (WritePoints convert buffer s)) = m_OutputStream s"
    by (auto simp: WritePoints_def WritePointsTyped_def Let_def split: IOComponentType.splits)
  have e: "and_then (WriteMeshInformation creatable s) (WritePoints convert buffer)
          = Inl (OnlySupports3DPoints, state_of (WriteMeshInformation creatable s))"
    if "thrown (WriteMeshInformation creatable s) = None"
      and "m_PointDimension s \<noteq> 3" and "m_PointComponentType s \<noteq> UNKNOWNCOMPONENTTYPE"
  proof (cases "WriteMeshInformation creatable s")
    case (Inl x)
    with that(1) show ?thesis by (cases x) simp
  next
    case (Inr s1)
    with WriteMeshInformation_keeps_points_type [of creatable s] that(2,3)
    have "m_PointDimension s1 \<noteq> 3" and "m_PointComponentType s1 \<noteq> UNKNOWNCOMPONENTTYPE"
      by simp_all
    with Inr show ?thesis by (simp add: b)
  qed
  have f: "thrown (and_then (WriteMeshInformation creatable s) (WritePoints convert buffer))
          = Some OnlySupports3DPoints
        \<and> file_size (output_of (and_then (WriteMeshInformation creatable s) (WritePoints convert buffer)))
          = (if m_FileType s = BINARY then 80 else 12)"
    if "m_FileType s = ASCII \<or> m_FileType s = BINARY" and "\<not> o_is_open (m_OutputStream s)"
      and "creatable (m_FileName s)"
      and "m_PointDimension s \<noteq> 3" and "m_PointComponentType s \<noteq> UNKNOWNCOMPONENTTYPE"
  proof -
    note h = WriteMeshInformation_header_size [of s creatable, OF that(1,2,3)]
    from h have "thrown (WriteMeshInformation creatable s) = None" by simp
    from e [OF this that(4,5)] h show ?thesis by (simp add: output_of_def)
  qed
  from a b c d e f show ?thesis by blast
qed

text \<open>
  Points of dimension 2 in a \<open>float\<close> buffer: the error, and the object unchanged; after
  the header of a binary file, the error with 80 bytes in the file.
\<close>

theorem WritePoints_dimension_error_witness:
  "WritePoints keep_value [0, 0, 1, 0, 0, 1] (flat_mesh FLOAT) = Inl (OnlySupports3DPoints, flat_mesh FLOAT)
   \<and> WritePointsTyped (keep_value FLOAT) [0, 0, 1, 0, 0, 1] (flat_mesh FLOAT)
     = Inl (OnlySupports3DPoints, flat_mesh FLOAT)
   \<and> WritePoints keep_value [0, 0, 1, 0, 0, 1] (flat_mesh UNKNOWNCOMPONENTTYPE)
     = Inl (UnknownPointComponentType, flat_mesh UNKNOWNCOMPONENTTYPE)
   \<and> thrown (and_then (WriteMeshInformation creatable_anywhere (flat_mesh FLOAT))
        (WritePoints keep_value [0, 0, 1, 0, 0, 1])) = Some OnlySupports3DPoints
   \<and> file_size (output_of (and_then (WriteMeshInformation creatable_anywhere (flat_mesh FLOAT))
        (WritePoints keep_value [0, 0, 1, 0, 0, 1]))) = 80"
  using WritePoints_dimension_error [of "flat_mesh FLOAT" "keep_value FLOAT" "[0, 0, 1, 0, 0, 1]"
      keep_value creatable_anywhere]
    WritePoints_dimension_error [of "flat_mesh UNKNOWNCOMPONENTTYPE" "keep_value FLOAT"
      "[0, 0, 1, 0, 0, 1]" keep_value creatable_anywhere]
  by (simp add: flat_mesh_def unit_triangle_mesh_def closed_ofstream_def creatable_anywhere_def)

text \<open>
  Where the claim fails, evaluated on the code. Points of dimension 2 in a buffer of
  unknown component type: the write fails, but not with the unsupported-dimension error.
  Points of dimension 2 in a \<open>float\<close> buffer, written after the header of a binary file:
  the unsupported-dimension error is raised with 80 bytes written, not none.
\<close>

theorem WritePoints_other_error_or_header_written:
  "m_PointDimension (flat_mesh UNKNOWNCOMPONENTTYPE) = 2
   \<and> thrown (WritePoints keep_value [0, 0, 1, 0, 0, 1] (flat_mesh UNKNOWNCOMPONENTTYPE))
     = Some UnknownPointComponentType
   \<and> thrown (WritePoints keep_value [0, 0, 1, 0, 0, 1] (flat_mesh UNKNOWNCOMPONENTTYPE))
     \<noteq> Some OnlySupports3DPoints
   \<and> m_PointDimension (flat_mesh FLOAT) = 2
   \<and> thrown (and_then (WriteMeshInformation creatable_anywhere (flat_mesh FLOAT))
        (WritePoints keep_value [0, 0, 1, 0, 0, 1])) = Some OnlySupports3DPoints
   \<and> file_size (output_of (and_then (WriteMeshInformation creatable_anywhere (flat_mesh FLOAT))
        (WritePoints keep_value [0, 0, 1, 0, 0, 1]))) = 80
   \<and> file_size (output_of (and_then (WriteMeshInformation creatable_anywhere (flat_mesh FLOAT))
        (WritePoints keep_value [0, 0, 1, 0, 0, 1]))) \<noteq> 0"
  by (simp add: WritePoints_def WritePointsTyped_def flat_mesh_def unit_triangle_mesh_def
      closed_ofstream_def creatable_anywhere_def WriteMeshInformation_def open_output_def
      ofstream_open_def put_def output_of_def setw_fill_def Let_def)

section \<open>File eligibility\<close>

text \<open>The last extension of a name with two dots, in a directory.\<close>

lemma GetFilenameLastExtension_cube: "GetFilenameLastExtension ''data/cube.v2.stl'' = ''.stl''"
  by (simp add: GetFilenameLastExtension_def GetFilenameName_def)

text \<open>
  C10. \<open>CanReadFile\<close> answers true exactly for a name that is an existing file and whose
  last extension is \<open>.stl\<close> or \<open>.STL\<close>, so a missing file is rejected whatever its
  extension; \<open>CanWriteFile\<close> looks at the extension alone (it does not even take the file
  system), so it accepts a well-named file that does not exist.
\<close>

theorem CanReadFile_exists_and_extension:
  "(CanReadFile fs fileName \<longleftrightarrow>
      fs fileName \<noteq> None \<and>
      (GetFilenameLastExtension fileName = ''.stl'' \<or> GetFilenameLastExtension fileName = ''.STL''))
   \<and> (CanWriteFile fileName \<longleftrightarrow>
      (GetFilenameLastExtension fileName = ''.stl'' \<or> GetFilenameLastExtension fileName = ''.STL''))
   \<and> (fs fileName = None \<longrightarrow> CanReadFile fs fileName = False)"
  by (auto simp: CanReadFile_def CanWriteFile_def FileExists_def Let_def)

text \<open>
  A missing \<open>mesh.stl\<close> cannot be read and can be written; an existing one can be read;
  an existing \<open>mesh.txt\<close> cannot.
\<close>

theorem CanReadFile_missing_file_witness:
  "CanReadFile Map.empty ''mesh.stl'' = False \<and> CanWriteFile ''mesh.stl'' = True
   \<and> CanReadFile [''mesh.stl'' \<mapsto> ''solid''] ''mesh.stl'' = True
   \<and> CanReadFile [''mesh.txt'' \<mapsto> ''solid''] ''mesh.txt'' = False"
  using CanReadFile_exists_and_extension [of "Map.empty" "''mesh.stl''"]
    CanReadFile_exists_and_extension [of "[''mesh.stl'' \<mapsto> ''solid'']" "''mesh.stl''"]
    CanReadFile_exists_and_extension [of "[''mesh.txt'' \<mapsto> ''solid'']" "''mesh.txt''"]
  by (simp add: GetFilenameLastExtension_def GetFilenameName_def)

end
